theory Spec2Isabelle
  imports Complex_Main "HOL-Library.List_Lexorder" "HOL-Library.Product_Lexorder"
begin

section \<open>Resume analyzer (ats/utils/ai_processor.py): text model\<close>

text \<open>
  A Python \<open>str\<close> is a sequence of Unicode code points, so a text is a list of
  natural numbers (the code points). Character classes that the regular
  expressions of the analyzer use on the ASCII range are written out; the whitespace
  class, which Python's \<open>\s\<close> and \<open>str.strip\<close> share, is written out in full.
\<close>

type_synonym str = "nat list"

definition ustr :: "string \<Rightarrow> str" where
  "ustr = map of_char"

definition is_space :: "nat \<Rightarrow> bool" where
  "is_space c \<longleftrightarrow>
     (9 \<le> c \<and> c \<le> 13) \<or> (28 \<le> c \<and> c \<le> 32) \<or> c = 133 \<or> c = 160 \<or> c = 5760 \<or>
     (8192 \<le> c \<and> c \<le> 8202) \<or> c = 8232 \<or> c = 8233 \<or> c = 8239 \<or> c = 8287 \<or> c = 12288"

text \<open>\<open>re.sub(r'\s+', ' ', text)\<close>: every maximal run of whitespace becomes one space.\<close>

function sub_ws :: "str \<Rightarrow> str" where
  "sub_ws [] = []"
| "sub_ws (c # cs) =
     (if is_space c then 32 # sub_ws (dropWhile is_space cs) else c # sub_ws cs)"
  by pat_completeness auto
termination
  by (relation "measure length") (auto intro: le_imp_less_Suc length_dropWhile_le)

text \<open>
  \<open>re.sub(r'[...]', '-', text)\<close> for the class of the five code points U+2022 (bullet),
  U+25CF (black circle), U+2013 (en dash), U+2014 (em dash) and U+F0D8 (a private-use
  code point, the arrow bullet of symbol fonts); 45 is the hyphen-minus.
\<close>

definition is_bullet :: "nat \<Rightarrow> bool" where
  "is_bullet c \<longleftrightarrow> c = 8226 \<or> c = 9679 \<or> c = 8211 \<or> c = 8212 \<or> c = 61656"

definition sub_bullets :: "str \<Rightarrow> str" where
  "sub_bullets = map (\<lambda>c. if is_bullet c then 45 else c)"

text \<open>\<open>str.strip()\<close>: leading and trailing whitespace removed.\<close>

definition strip :: "str \<Rightarrow> str" where
  "strip t = rev (dropWhile is_space (rev (dropWhile is_space t)))"

definition clean_text :: "str \<Rightarrow> str" where
  "clean_text t = strip (sub_bullets (sub_ws t))"

section \<open>The Python runtime and the libraries the analyzer calls\<close>

text \<open>
  The Unicode tables of the interpreter are not part of the repository. Their ASCII part
  is written out below; the part beyond ASCII is a parameter of the model: which code
  points are word characters (\<open>\w\<close>), which are decimal digits and their values
  (\<open>\d\<close>, \<open>int\<close>), which are numeric (\<open>str.isnumeric\<close>), and what
  \<open>str.lower\<close> returns on a text that is not pure ASCII.
\<close>

record unicode_db =
  uni_word :: "nat \<Rightarrow> bool"
  uni_decimal :: "nat \<Rightarrow> nat option"
  uni_numeric :: "nat \<Rightarrow> bool"
  uni_lower :: "str \<Rightarrow> str"

text \<open>The tables with nothing beyond ASCII, for evaluating the model on ASCII texts.\<close>

definition ascii_db :: unicode_db where
  "ascii_db = \<lparr>uni_word = (\<lambda>c. False), uni_decimal = (\<lambda>c. None),
     uni_numeric = (\<lambda>c. False), uni_lower = (\<lambda>t. t)\<rparr>"

definition is_ascii :: "nat \<Rightarrow> bool" where
  "is_ascii c \<longleftrightarrow> c < 128"

definition ascii_digit :: "nat \<Rightarrow> bool" where
  "ascii_digit c \<longleftrightarrow> 48 \<le> c \<and> c \<le> 57"

definition ascii_upper :: "nat \<Rightarrow> bool" where
  "ascii_upper c \<longleftrightarrow> 65 \<le> c \<and> c \<le> 90"

definition ascii_lower :: "nat \<Rightarrow> bool" where
  "ascii_lower c \<longleftrightarrow> 97 \<le> c \<and> c \<le> 122"

definition is_decimal :: "unicode_db \<Rightarrow> nat \<Rightarrow> bool" where
  "is_decimal U c = (if is_ascii c then ascii_digit c else uni_decimal U c \<noteq> None)"

definition digit_value :: "unicode_db \<Rightarrow> nat \<Rightarrow> nat" where
  "digit_value U c =
     (if is_ascii c then c - 48 else (case uni_decimal U c of Some v \<Rightarrow> v | None \<Rightarrow> 0))"

definition is_word :: "unicode_db \<Rightarrow> nat \<Rightarrow> bool" where
  "is_word U c =
     (if is_ascii c then ascii_digit c \<or> ascii_upper c \<or> ascii_lower c \<or> c = 95
      else uni_word U c)"

definition lower :: "unicode_db \<Rightarrow> str \<Rightarrow> str" where
  "lower U t =
     (if list_all is_ascii t then map (\<lambda>c. if ascii_upper c then c + 32 else c) t
      else uni_lower U t)"

definition isnumeric :: "unicode_db \<Rightarrow> str \<Rightarrow> bool" where
  "isnumeric U t \<longleftrightarrow>
     t \<noteq> [] \<and> list_all (\<lambda>c. if is_ascii c then ascii_digit c else uni_numeric U c) t"

text \<open>
  A literal character \<open>p\<close> of a pattern compiled with \<open>re.I\<close> (all such literals
  in the source are lower case) matches \<open>c\<close> when \<open>c\<close> is \<open>p\<close>, its
  upper-case form, or one of the other code points the \<open>re\<close> module treats as the same
  letter: U+017F for s, U+212A for k, U+0130 and U+0131 for i.
\<close>

definition ci_eq :: "nat \<Rightarrow> nat \<Rightarrow> bool" where
  "ci_eq p c \<longleftrightarrow>
     c = p \<or> (ascii_lower p \<and> c + 32 = p) \<or> (p = 115 \<and> c = 383) \<or> (p = 107 \<and> c = 8490) \<or>
     (p = 105 \<and> (c = 304 \<or> c = 305))"

fun ci_starts :: "str \<Rightarrow> str \<Rightarrow> bool" where
  "ci_starts [] t = True"
| "ci_starts (p # ps) [] = False"
| "ci_starts (p # ps) (c # cs) = (ci_eq p c \<and> ci_starts ps cs)"

definition starts :: "str \<Rightarrow> str \<Rightarrow> bool" where
  "starts p t \<longleftrightarrow> take (length p) t = p"

text \<open>\<open>p in t\<close> for two texts, which is also \<open>re.search\<close> of a literal.\<close>

fun str_in :: "str \<Rightarrow> str \<Rightarrow> bool" where
  "str_in p [] = (p = [])"
| "str_in p (c # cs) = (starts p (c # cs) \<or> str_in p cs)"

text \<open>\<open>sep.join(parts)\<close>.\<close>

fun join :: "str \<Rightarrow> str list \<Rightarrow> str" where
  "join sep [] = []"
| "join sep [x] = x"
| "join sep (x # y # ys) = x @ sep @ join sep (y # ys)"

subsection \<open>Scanning with a pattern\<close>

text \<open>
  A pattern is given by its matcher at the start of a text: \<open>m t = Some (g, rest)\<close>
  when the pattern matches a prefix of \<open>t\<close>, with \<open>g\<close> what the match captures and
  \<open>rest\<close> the text after the match. The \<open>re\<close> module scans from left to right and
  resumes after each match; no pattern of the analyzer matches the empty text, and a
  matcher result that is not shorter than the text is skipped.
\<close>

function re_finditer :: "(str \<Rightarrow> ('a \<times> str) option) \<Rightarrow> str \<Rightarrow> 'a list" where
  "re_finditer m [] = []"
| "re_finditer m (c # cs) =
     (case m (c # cs) of
        None \<Rightarrow> re_finditer m cs
      | Some (g, rest) \<Rightarrow>
          if length rest \<le> length cs then g # re_finditer m rest else re_finditer m cs)"
  by pat_completeness auto
termination
  by (relation "measure (\<lambda>(m, t). length t)") auto

text \<open>\<open>re.sub(pattern, '', t)\<close>: every match is deleted.\<close>

function re_delete :: "(str \<Rightarrow> ('a \<times> str) option) \<Rightarrow> str \<Rightarrow> str" where
  "re_delete m [] = []"
| "re_delete m (c # cs) =
     (case m (c # cs) of
        None \<Rightarrow> c # re_delete m cs
      | Some (g, rest) \<Rightarrow>
          if length rest \<le> length cs then re_delete m rest else c # re_delete m cs)"
  by pat_completeness auto
termination
  by (relation "measure (\<lambda>(m, t). length t)") auto

text \<open>\<open>re.split(pattern, t)\<close> for a pattern without groups: the pieces between matches.\<close>

definition add_char :: "nat \<Rightarrow> str list \<Rightarrow> str list" where
  "add_char c ps = (case ps of [] \<Rightarrow> [[c]] | r # rs \<Rightarrow> (c # r) # rs)"

function re_split :: "(str \<Rightarrow> ('a \<times> str) option) \<Rightarrow> str \<Rightarrow> str list" where
  "re_split m [] = [[]]"
| "re_split m (c # cs) =
     (case m (c # cs) of
        None \<Rightarrow> add_char c (re_split m cs)
      | Some (g, rest) \<Rightarrow>
          if length rest \<le> length cs then [] # re_split m rest
          else add_char c (re_split m cs))"
  by pat_completeness auto
termination
  by (relation "measure (\<lambda>(m, t). length t)") auto

text \<open>A pattern that is one character of a class.\<close>

definition one_of :: "(nat \<Rightarrow> bool) \<Rightarrow> str \<Rightarrow> (unit \<times> str) option" where
  "one_of P t = (case t of [] \<Rightarrow> None | c # cs \<Rightarrow> if P c then Some ((), cs) else None)"

subsection \<open>spaCy, rapidfuzz, scikit-learn and the analyzer object\<close>

text \<open>
  What the analyzer reads of a spaCy document: the entities with their labels, the noun
  chunks (the text of each and the \<open>is_stop\<close> flag of each of its tokens), the vector
  and its norm.
\<close>

record chunk =
  chunk_text :: str
  chunk_is_stop :: "bool list"

record doc =
  ents :: "(str \<times> string) list"
  noun_chunks :: "chunk list"
  vector :: "real list"
  vector_norm :: real

text \<open>
  \<open>known_best\<close> is \<open>rapidfuzz.process.extractOne\<close> with the scorer
  \<open>fuzz.token_sort_ratio\<close> and \<open>score_cutoff=85\<close>: the best choice, if one reaches
  the cutoff. \<open>cosine\<close> is \<open>sklearn\<close>'s \<open>cosine_similarity\<close> of two vectors.
  The four patterns below are those whose matches only go into the reported profile;
  they are not interpreted, \<open>re_search\<close> and \<open>re_findall\<close> stand for the \<open>re\<close>
  module on them.
\<close>

datatype pattern = Email | Phone | Link | Degree

record library =
  known_best :: "str \<Rightarrow> str list \<Rightarrow> str option"
  cosine :: "real list \<Rightarrow> real list \<Rightarrow> real"
  re_search :: "pattern \<Rightarrow> str \<Rightarrow> str option"
  re_findall :: "pattern \<Rightarrow> str \<Rightarrow> str list"

text \<open>The fields of a \<open>ResumeAnalyzer\<close>, as \<open>__init__\<close> sets them.\<close>

record analyzer =
  nlp :: "str \<Rightarrow> doc"
  known_skills :: "str list"
  current_year :: int
  skill_blacklist :: "str list"

section \<open>Locating a section\<close>

text \<open>
  \<open>_extract_section(text, section_name)\<close>. The pattern \<open>section_name\<close> is given by
  the texts it matches in full; the compiled pattern
  \<open>^\s*(section_name)\s*:*\s*$\<close> then matches a line that is whitespace, such a text,
  whitespace, colons and whitespace.
\<close>

definition heading_tail :: "str \<Rightarrow> bool" where
  "heading_tail r \<longleftrightarrow>
     dropWhile is_space (dropWhile (\<lambda>c. c = 58) (dropWhile is_space r)) = []"

definition heading_line :: "(str \<Rightarrow> bool) \<Rightarrow> str \<Rightarrow> bool" where
  "heading_line section_name l \<longleftrightarrow>
     list_ex (\<lambda>i. list_all is_space (take i l) \<and>
        list_ex (\<lambda>j. section_name (take (j - i) (drop i l)) \<and> heading_tail (drop j l))
          [i..<Suc (length l)])
       [0..<Suc (length l)]"

text \<open>\<open>re.match(r'^\s*$', line)\<close> and \<open>re.match(r'^\s*[A-Z][A-Z ]+:', line)\<close>.\<close>

definition blank_line :: "str \<Rightarrow> bool" where
  "blank_line l \<longleftrightarrow> list_all is_space l"

definition caps_heading :: "str \<Rightarrow> bool" where
  "caps_heading l \<longleftrightarrow>
     (case dropWhile is_space l of
        [] \<Rightarrow> False
      | c # r \<Rightarrow>
          ascii_upper c \<and> takeWhile (\<lambda>d. ascii_upper d \<or> d = 32) r \<noteq> [] \<and>
          (case dropWhile (\<lambda>d. ascii_upper d \<or> d = 32) r of [] \<Rightarrow> False | d # _ \<Rightarrow> d = 58))"

text \<open>
  The loop over the lines, with the flag \<open>capture\<close>; the result is the list
  \<open>lines\<close> at the end of the loop.
\<close>

fun capture_lines :: "(str \<Rightarrow> bool) \<Rightarrow> bool \<Rightarrow> str list \<Rightarrow> str list" where
  "capture_lines section_name capture [] = []"
| "capture_lines section_name capture (l # ls) =
     (if heading_line section_name (strip l) then capture_lines section_name True ls
      else if capture then
        (if blank_line l \<or> caps_heading l then []
         else strip l # capture_lines section_name True ls)
      else capture_lines section_name False ls)"

definition extract_section :: "str \<Rightarrow> (str \<Rightarrow> bool) \<Rightarrow> str" where
  "extract_section t section_name =
     join [32] (capture_lines section_name False (re_split (one_of (\<lambda>c. c = 10)) t))"

section \<open>Skills\<close>

definition ci_full :: "str \<Rightarrow> str \<Rightarrow> bool" where
  "ci_full p w \<longleftrightarrow> length w = length p \<and> ci_starts p w"

text \<open>The section name \<open>skills|technical skills|competencies\<close>.\<close>

definition skills_section :: "str \<Rightarrow> bool" where
  "skills_section w \<longleftrightarrow>
     ci_full (ustr ''skills'') w \<or> ci_full (ustr ''technical skills'') w \<or>
     ci_full (ustr ''competencies'') w"

definition opt_ci :: "nat \<Rightarrow> str \<Rightarrow> str" where
  "opt_ci p t = (case t of [] \<Rightarrow> [] | c # cs \<Rightarrow> if ci_eq p c then cs else t)"

text \<open>The pattern \<open>[\d\.%]|years?|http[s]?://\S+\<close> with \<open>re.I\<close>.\<close>

definition noise :: "unicode_db \<Rightarrow> str \<Rightarrow> (unit \<times> str) option" where
  "noise U t =
     (case t of
        [] \<Rightarrow> None
      | c # cs \<Rightarrow>
          if is_decimal U c \<or> c = 46 \<or> c = 37 then Some ((), cs)
          else if ci_starts (ustr ''year'') t then Some ((), opt_ci 115 (drop 4 t))
          else if ci_starts (ustr ''http'') t then
            (let r = drop 3 (opt_ci 115 (drop 4 t)) in
             if starts (ustr ''://'') (opt_ci 115 (drop 4 t)) \<and>
                takeWhile (\<lambda>d. \<not> is_space d) r \<noteq> []
             then Some ((), dropWhile (\<lambda>d. \<not> is_space d) r) else None)
          else None)"

text \<open>The pattern \<open>\s{2,}|- |/|b\<close>, where \<open>b\<close> is U+2022.\<close>

definition skill_sep :: "str \<Rightarrow> (unit \<times> str) option" where
  "skill_sep t =
     (case t of
        [] \<Rightarrow> None
      | c # cs \<Rightarrow>
          if is_space c \<and> (case cs of [] \<Rightarrow> False | d # _ \<Rightarrow> is_space d)
          then Some ((), dropWhile is_space t)
          else if starts [45, 32] t then Some ((), drop 2 t)
          else if c = 47 \<or> c = 8226 then Some ((), cs)
          else None)"

definition match_known_skill :: "library \<Rightarrow> analyzer \<Rightarrow> str \<Rightarrow> str option" where
  "match_known_skill L self skill =
     (if known_skills self = [] then Some skill else known_best L skill (known_skills self))"

definition in_range :: "nat \<Rightarrow> nat \<Rightarrow> str \<Rightarrow> bool" where
  "in_range lo hi t \<longleftrightarrow> lo \<le> length t \<and> length t \<le> hi"

definition process_skill_line :: "library \<Rightarrow> analyzer \<Rightarrow> str \<Rightarrow> str list" where
  "process_skill_line L self line =
     concat (map (\<lambda>piece.
        let skill = strip piece in
        if in_range 3 40 skill then
          (case match_known_skill L self skill of
             None \<Rightarrow> []
           | Some matched \<Rightarrow> if matched = [] then [] else [matched])
        else [])
       (re_split skill_sep line))"

definition is_valid_skill :: "unicode_db \<Rightarrow> analyzer \<Rightarrow> str \<Rightarrow> bool" where
  "is_valid_skill U self skill \<longleftrightarrow>
     list_ex ascii_lower skill \<and>
     \<not> list_ex (\<lambda>blacklisted. str_in blacklisted (lower U skill)) (skill_blacklist self) \<and>
     \<not> (str_in [64] skill \<or> str_in (ustr ''.com'') skill \<or> list_ex (is_decimal U) skill \<or>
        str_in (ustr ''year'') skill \<or> str_in (ustr ''month'') skill \<or>
        str_in (ustr ''http'') skill)"

definition extract_noun_phrases :: "unicode_db \<Rightarrow> analyzer \<Rightarrow> str \<Rightarrow> str list" where
  "extract_noun_phrases U self t =
     map (\<lambda>ch. strip (lower U (chunk_text ch)))
       (filter (\<lambda>ch. 3 < length (chunk_text ch) \<and> length (chunk_text ch) < 50 \<and>
                  \<not> list_ex (\<lambda>b. b) (chunk_is_stop ch) \<and> \<not> isnumeric U (chunk_text ch))
          (noun_chunks (nlp self t)))"

text \<open>The first occurrences, in order: the elements of a Python \<open>set\<close> built from a list.\<close>

definition unique :: "'a list \<Rightarrow> 'a list" where
  "unique xs = rev (remdups (rev xs))"

text \<open>The sort key \<open>lambda x: (-len(x), x)\<close>.\<close>

definition by_length :: "str \<Rightarrow> int \<times> str" where
  "by_length x = (- int (length x), x)"

definition skill_lines :: "unicode_db \<Rightarrow> library \<Rightarrow> analyzer \<Rightarrow> str \<Rightarrow> str list" where
  "skill_lines U L self section_text =
     concat (map (\<lambda>l.
        let line = strip (re_delete (noise U) l) in
        if in_range 3 40 line then process_skill_line L self line else [])
       (re_split (one_of (\<lambda>c. c = 10 \<or> c = 44 \<or> c = 59)) section_text))"

definition extract_skills :: "unicode_db \<Rightarrow> library \<Rightarrow> analyzer \<Rightarrow> str \<Rightarrow> str list" where
  "extract_skills U L self t =
     (let section_text = extract_section t skills_section;
          skills = skill_lines U L self section_text
      in if skills = [] then extract_noun_phrases U self t
         else sort_key by_length
                (unique (map (\<lambda>skill. strip (lower U skill))
                   (filter (is_valid_skill U self) skills))))"

section \<open>Experience\<close>

text \<open>
  The exceptions the analyzer's own code can raise. \<open>int(s)\<close> raises
  \<open>ValueError\<close> on a text that is not a number; \<open>a / b\<close> on two integers raises
  \<open>OverflowError\<close> when the quotient is too large for a float, which is from
  \<open>2^1024 - 2^970\<close> on (the quotients below that round to a finite double).
\<close>

datatype py_error = ValueError | OverflowError | ZeroDivisionError | RuntimeError

fun collect :: "('e + 'a) list \<Rightarrow> 'e + 'a list" where
  "collect [] = Inr []"
| "collect (r # rs) =
     (case r of
        Inl e \<Rightarrow> Inl e
      | Inr x \<Rightarrow> (case collect rs of Inl e \<Rightarrow> Inl e | Inr xs \<Rightarrow> Inr (x # xs)))"

text \<open>
  \<open>int(s)\<close> on the texts the analyzer converts: a run of decimal digits, or a text
  without any digit. From Python 3.11 on \<open>int\<close> also raises \<open>ValueError\<close> on a text
  of more digits than \<open>sys.get_int_max_str_digits()\<close>, 4300 unless configured and never
  a positive number below 640; this limit is left out, and no text evaluated below has
  more than 401 digits.
\<close>

definition py_int :: "unicode_db \<Rightarrow> str \<Rightarrow> py_error + int" where
  "py_int U t =
     (if t \<noteq> [] \<and> list_all (is_decimal U) t
      then Inr (int (foldl (\<lambda>a c. 10 * a + digit_value U c) 0 t))
      else Inl ValueError)"

definition float_limit :: real where
  "float_limit = 2 ^ 1024 - 2 ^ 970"

definition py_truediv :: "int \<Rightarrow> int \<Rightarrow> py_error + real" where
  "py_truediv a b =
     (if b = 0 then Inl ZeroDivisionError
      else if float_limit \<le> \<bar>real_of_int a / real_of_int b\<bar> then Inl OverflowError
      else Inr (real_of_int a / real_of_int b))"

text \<open>
  An experience mention: \<open>{'type': 'duration', 'value': v}\<close> or
  \<open>{'type': 'range', 'years': y}\<close>.
\<close>

datatype experience = Duration int | Range int

fun years :: "experience \<Rightarrow> int" where
  "years (Duration v) = v"
| "years (Range y) = y"

text \<open>The pattern \<open>(\d+)\+?\s*years?\<close> with \<open>re.I\<close>; the capture is group 1.\<close>

definition duration_mention :: "unicode_db \<Rightarrow> str \<Rightarrow> (str \<times> str) option" where
  "duration_mention U t =
     (let r = dropWhile is_space (opt_ci 43 (dropWhile (is_decimal U) t)) in
      if takeWhile (is_decimal U) t \<noteq> [] \<and> ci_starts (ustr ''year'') r
      then Some (takeWhile (is_decimal U) t, opt_ci 115 (drop 4 r))
      else None)"

text \<open>
  The pattern \<open>(\d{4})\s*[..]\s*(\d{4}|present)\<close> with \<open>re.I\<close>, where the class
  \<open>[..]\<close> is the hyphen-minus and U+2014; the capture is groups 1 and 2.
\<close>

definition four_digits :: "unicode_db \<Rightarrow> str \<Rightarrow> bool" where
  "four_digits U t \<longleftrightarrow> length (take 4 t) = 4 \<and> list_all (is_decimal U) (take 4 t)"

definition range_mention :: "unicode_db \<Rightarrow> str \<Rightarrow> ((str \<times> str) \<times> str) option" where
  "range_mention U t =
     (if four_digits U t then
        (case dropWhile is_space (drop 4 t) of
           [] \<Rightarrow> None
         | c # r \<Rightarrow>
             if c = 45 \<or> c = 8212 then
               (let r2 = dropWhile is_space r in
                if four_digits U r2 then Some ((take 4 t, take 4 r2), drop 4 r2)
                else if ci_starts (ustr ''present'') r2
                  then Some ((take 4 t, take 7 r2), drop 7 r2)
                else None)
             else None)
      else None)"

definition range_years :: "unicode_db \<Rightarrow> analyzer \<Rightarrow> str \<times> str \<Rightarrow> py_error + experience" where
  "range_years U self g =
     (case py_int U (fst g) of
        Inl e \<Rightarrow> Inl e
      | Inr start \<Rightarrow>
          (case (if lower U (snd g) = ustr ''present'' then Inr (current_year self)
                 else py_int U (snd g)) of
             Inl e \<Rightarrow> Inl e
           | Inr stop \<Rightarrow> Inr (Range (stop - start))))"

definition extract_experience :: "unicode_db \<Rightarrow> analyzer \<Rightarrow> str \<Rightarrow> py_error + experience list" where
  "extract_experience U self t =
     (case collect (map (\<lambda>g. map_sum (\<lambda>e. e) Duration (py_int U g))
                      (re_finditer (duration_mention U) t)) of
        Inl e \<Rightarrow> Inl e
      | Inr durations \<Rightarrow>
          (case collect (map (range_years U self) (re_finditer (range_mention U) t)) of
             Inl e \<Rightarrow> Inl e
           | Inr ranges \<Rightarrow> Inr (durations @ ranges)))"

text \<open>\<open>str(n)\<close> for an integer, as the f-strings of \<open>_format_experience\<close> print it.\<close>

function digits :: "nat \<Rightarrow> str" where
  "digits n = (if n < 10 then [48 + n] else digits (n div 10) @ [48 + n mod 10])"
  by pat_completeness auto
termination
  by (relation "measure (\<lambda>n. n)") auto

definition py_str :: "int \<Rightarrow> str" where
  "py_str i = (if i < 0 then 45 # digits (nat (- i)) else digits (nat i))"

definition format_experience :: "experience list \<Rightarrow> str list" where
  "format_experience experiences =
     (let formatted = map (\<lambda>e. case e of
              Duration v \<Rightarrow> py_str v @ ustr ''+ years experience''
            | Range y \<Rightarrow> py_str y @ ustr '' years experience'') experiences;
          total_years = sum_list (map years experiences)
      in if total_years > 0
         then (ustr ''Total: '' @ py_str total_years @ ustr '' years'') # formatted
         else formatted)"

definition required_years :: "unicode_db \<Rightarrow> str \<Rightarrow> int" where
  "required_years U position =
     (if str_in (ustr ''senior'') (lower U position) then 5
      else if str_in (ustr ''junior'') (lower U position) then 2 else 3)"

definition calculate_experience_score :: "unicode_db \<Rightarrow> analyzer \<Rightarrow> str \<Rightarrow> str \<Rightarrow> py_error + real" where
  "calculate_experience_score U self t position =
     (case extract_experience U self t of
        Inl e \<Rightarrow> Inl e
      | Inr experiences \<Rightarrow>
          (let total = sum_list (map years experiences);
               required = required_years U position
           in if required > 0 then
                (case py_truediv total required of
                   Inl e \<Rightarrow> Inl e
                 | Inr q \<Rightarrow> Inr (min q 1))
              else Inr 0))"

section \<open>Education\<close>

text \<open>
  \<open>\b\<close> at index \<open>i\<close> of \<open>t\<close>, and \<open>re.search\<close> of \<open>\bw\b\<close> with
  \<open>re.I\<close> for a literal \<open>w\<close>. The pattern \<open>\b(b\.?s|bachelor)\b\<close> is the three
  literals bs, b.s and bachelor, and so on for the other two patterns.
\<close>

definition boundary :: "unicode_db \<Rightarrow> str \<Rightarrow> nat \<Rightarrow> bool" where
  "boundary U t i \<longleftrightarrow>
     (0 < i \<and> i \<le> length t \<and> is_word U (t ! (i - 1))) \<noteq> (i < length t \<and> is_word U (t ! i))"

definition search_word :: "unicode_db \<Rightarrow> str \<Rightarrow> str \<Rightarrow> bool" where
  "search_word U w t \<longleftrightarrow>
     list_ex (\<lambda>i. boundary U t i \<and> ci_starts w (drop i t) \<and> boundary U t (i + length w))
       [0..<Suc (length t)]"

definition has_bachelor :: "unicode_db \<Rightarrow> str \<Rightarrow> bool" where
  "has_bachelor U t \<longleftrightarrow>
     search_word U (ustr ''bs'') t \<or> search_word U (ustr ''b.s'') t \<or>
     search_word U (ustr ''bachelor'') t"

definition has_master :: "unicode_db \<Rightarrow> str \<Rightarrow> bool" where
  "has_master U t \<longleftrightarrow>
     search_word U (ustr ''ms'') t \<or> search_word U (ustr ''m.s'') t \<or>
     search_word U (ustr ''master'') t"

definition has_phd :: "unicode_db \<Rightarrow> str \<Rightarrow> bool" where
  "has_phd U t \<longleftrightarrow> search_word U (ustr ''phd'') t \<or> search_word U (ustr ''doctorate'') t"

definition calculate_education_score :: "unicode_db \<Rightarrow> str \<Rightarrow> str \<Rightarrow> real" where
  "calculate_education_score U resume_text job_desc =
     (let required_degrees = {''bachelor'', ''master'', ''phd''};
          candidate_degrees = Option.these
            {if has_bachelor U resume_text then Some ''bachelor'' else None,
             if has_master U resume_text then Some ''master'' else None,
             if has_phd U resume_text then Some ''phd'' else None}
      in if required_degrees = {} then 1
         else real (card (candidate_degrees \<inter> required_degrees)) / real (card required_degrees))"

section \<open>Scores\<close>

text \<open>
  The scores are floats, that is IEEE 754 doubles: every product, sum and quotient of
  two doubles is the exact result rounded to the nearest double, ties to the even
  significand. \<open>fl\<close> is this rounding on the reals: a double is an integer multiple of
  its unit in the last place, \<open>2 ^ ulp_exp x\<close>, which is \<open>2 ^ (e - 52)\<close> for
  \<open>2 ^ e \<le> \<bar>x\<bar> < 2 ^ (e + 1)\<close> and \<open>2 ^ - 1074\<close> below the smallest normal number
  \<open>2 ^ - 1022\<close>. The exponent is not bounded above: overflow to infinity, which needs
  sub-scores beyond \<open>10 ^ 300\<close>, is left out. A literal such as \<open>0.4\<close> is the double
  \<open>fl 0.4\<close>.
\<close>

definition rint :: "real \<Rightarrow> int" where
  "rint x =
     (if x - of_int \<lfloor>x\<rfloor> < 1 / 2 then \<lfloor>x\<rfloor>
      else if 1 / 2 < x - of_int \<lfloor>x\<rfloor> then \<lfloor>x\<rfloor> + 1
      else if even \<lfloor>x\<rfloor> then \<lfloor>x\<rfloor> else \<lfloor>x\<rfloor> + 1)"

definition ulp_exp :: "real \<Rightarrow> int" where
  "ulp_exp x = (if \<bar>x\<bar> < 1 / 2 ^ 1022 then - 1074 else \<lfloor>log 2 \<bar>x\<bar>\<rfloor> - 52)"

definition fl :: "real \<Rightarrow> real" where
  "fl x = of_int (rint (x / 2 powr of_int (ulp_exp x))) * 2 powr of_int (ulp_exp x)"

definition fmul :: "real \<Rightarrow> real \<Rightarrow> real" where
  "fmul x y = fl (x * y)"

definition fadd :: "real \<Rightarrow> real \<Rightarrow> real" where
  "fadd x y = fl (x + y)"

definition fdiv :: "real \<Rightarrow> real \<Rightarrow> real" where
  "fdiv x y = fl (x / y)"

text \<open>
  \<open>np.round(x, decimals)\<close> for \<open>decimals \<ge> 0\<close> multiplies by \<open>10 ** decimals\<close>, rounds
  to the nearest integer with ties to the even one (\<open>rint\<close>), and divides by
  \<open>10 ** decimals\<close>; the product and the quotient are each rounded to a double. So the
  result is the double nearest to a number of hundredths, and that number is not always
  the one nearest to \<open>x\<close>: a product that rounds onto or off a tie decides otherwise.
\<close>

definition np_round :: "real \<Rightarrow> nat \<Rightarrow> real" where
  "np_round x decimals = fdiv (of_int (rint (fmul x (10 ^ decimals)))) (10 ^ decimals)"

text \<open>
  \<open>weighted = (0.4 * similarity) + (0.4 * skills) + (0.15 * exp) + (0.05 * edu)\<close>, the
  sums taken from the left, and \<open>float(np.round(weighted * 100, 2))\<close>.
\<close>

definition calculate_compatibility_score :: "real \<Rightarrow> real \<Rightarrow> real \<Rightarrow> real \<Rightarrow> real" where
  "calculate_compatibility_score similarity skills expr edu =
     (let weighted = fadd (fadd (fadd (fmul (fl 0.4) similarity) (fmul (fl 0.4) skills))
                       (fmul (fl 0.15) expr)) (fmul (fl 0.05) edu)
      in np_round (fmul weighted 100) 2)"

text \<open>The dict of \<open>_format_score_breakdown\<close>, as the list of its items.\<close>

definition format_score_breakdown :: "real \<Rightarrow> real \<Rightarrow> real \<Rightarrow> real \<Rightarrow> (string \<times> real) list" where
  "format_score_breakdown similarity skills expr edu =
     [(''semantic_similarity'', np_round (fmul similarity 100) 2),
      (''skill_coverage'', np_round (fmul skills 100) 2),
      (''experience_match'', np_round (fmul expr 100) 2),
      (''education_match'', np_round (fmul edu 100) 2)]"

text \<open>\<open>np.clip(similarity, 0.0, 1.0)\<close> is \<open>min 1 (max 0 similarity)\<close>.\<close>

definition calculate_semantic_similarity :: "library \<Rightarrow> analyzer \<Rightarrow> str \<Rightarrow> str \<Rightarrow> real" where
  "calculate_semantic_similarity L self text1 text2 =
     (let doc1 = nlp self text1; doc2 = nlp self text2
      in if vector_norm doc1 = 0 \<or> vector_norm doc2 = 0 then 0
         else min 1 (max 0 (cosine L (vector doc1) (vector doc2))))"

text \<open>
  \<open>matched / len(required_skills)\<close> divides a count by a positive count that is not
  smaller, so it raises nothing. The three quotients of counts (here, in the experience
  score and in the education score) are kept as exact quotients: the double that Python
  computes is the nearest one, within \<open>2 ^ - 53\<close> of it in relative terms, and the
  comparisons with 0.8 and with 1.0 come out the same for the small denominators
  involved.
\<close>

definition calculate_skill_score :: "unicode_db \<Rightarrow> str list \<Rightarrow> str list \<Rightarrow> real" where
  "calculate_skill_score U cv_skills required_skills =
     (if required_skills = [] then 1
      else real (length (filter (\<lambda>skill. lower U skill \<in> set cv_skills) required_skills)) /
           real (length required_skills))"

definition find_missing_skills :: "unicode_db \<Rightarrow> str list \<Rightarrow> str list \<Rightarrow> str list" where
  "find_missing_skills U cv_skills required_skills =
     sort (unique (map (lower U)
       (filter (\<lambda>skill. lower U skill \<notin> set cv_skills \<and> length skill > 3) required_skills)))"

section \<open>The profile and the analysis\<close>

record personal_info =
  name :: str
  email :: str
  phone :: str
  links :: "str list"

text \<open>
  The order of \<open>list(set(...))\<close> is left open by Python; the model lists the links in
  the order of their first occurrence.
\<close>

definition extract_links :: "library \<Rightarrow> str \<Rightarrow> str list" where
  "extract_links L t = unique (re_findall L Link t)"

definition extract_personal_info :: "unicode_db \<Rightarrow> library \<Rightarrow> analyzer \<Rightarrow> str \<Rightarrow> personal_info" where
  "extract_personal_info U L self t =
     \<lparr>name = (case filter (\<lambda>ent. snd ent = ''PERSON'') (ents (nlp self t)) of
                [] \<Rightarrow> [] | ent # _ \<Rightarrow> fst ent),
      email = (case re_search L Email t of None \<Rightarrow> [] | Some m \<Rightarrow> m),
      phone = (case re_search L Phone t of None \<Rightarrow> [] | Some m \<Rightarrow> filter (is_decimal U) m),
      links = extract_links L t\<rparr>"

definition extract_education :: "library \<Rightarrow> str \<Rightarrow> str list" where
  "extract_education L t =
     filter (\<lambda>edu. length edu > 5 \<and> \<not> (str_in (ustr ''http'') edu \<or> str_in [64] edu))
       (map strip (re_findall L Degree t))"

record profile =
  d_personal_info :: personal_info
  d_skills :: "str list"
  d_experience :: "str list"
  d_education :: "str list"
  d_links :: "str list"

record analysis_result =
  compatibility_score :: real
  missing_skills :: "str list"
  experience_match :: bool
  education_match :: bool
  cv_data :: personal_info
  score_breakdown :: "(string \<times> real) list"

text \<open>\<open>job_data.get(key, '')\<close> on a dict whose values are texts.\<close>

definition get :: "(string \<rightharpoonup> str) \<Rightarrow> string \<Rightarrow> str" where
  "get job_data key = (case job_data key of None \<Rightarrow> [] | Some v \<Rightarrow> v)"

definition analyze ::
  "unicode_db \<Rightarrow> library \<Rightarrow> analyzer \<Rightarrow> str \<Rightarrow> (string \<rightharpoonup> str) \<Rightarrow> py_error + analysis_result" where
  "analyze U L self resume_text job_data =
     (let cleaned = clean_text resume_text in
      case extract_experience U self cleaned of
        Inl e \<Rightarrow> Inl e
      | Inr experiences \<Rightarrow>
          (let cv_data = \<lparr>d_personal_info = extract_personal_info U L self cleaned,
                 d_skills = extract_skills U L self cleaned,
                 d_experience = format_experience experiences,
                 d_education = extract_education L cleaned,
                 d_links = extract_links L cleaned\<rparr>;
               job_desc = clean_text
                 (get job_data ''description'' @ [32] @ get job_data ''requirements'');
               required_skills = extract_skills U L self job_desc;
               similarity_score = calculate_semantic_similarity L self cleaned job_desc;
               skill_score = calculate_skill_score U (d_skills cv_data) required_skills
           in case calculate_experience_score U self cleaned (get job_data ''position'') of
                Inl e \<Rightarrow> Inl e
              | Inr experience_score \<Rightarrow>
                  (let education_score = calculate_education_score U cleaned job_desc;
                       compatibility_score = calculate_compatibility_score
                         similarity_score skill_score experience_score education_score
                   in Inr \<lparr>compatibility_score = compatibility_score,
                        missing_skills =
                          find_missing_skills U (d_skills cv_data) required_skills,
                        experience_match = (experience_score \<ge> 0.8),
                        education_match = (education_score \<ge> 0.8),
                        cv_data = d_personal_info cv_data,
                        score_breakdown = format_score_breakdown
                          similarity_score skill_score experience_score education_score\<rparr>)))"

section \<open>Construction and text extraction\<close>

text \<open>
  What the analyzer takes from outside: the spaCy model (\<open>None\<close> when loading raises
  \<open>OSError\<close>), the frame \<open>pd.read_csv\<close> returns (rows of cells as texts,
  \<open>None\<close> for NaN) or its exception, the texts of the pages of a PDF file
  (\<open>None\<close> for a page without text) or the exception of \<open>pdfplumber\<close>, and the
  year of the clock.
\<close>

record system =
  spacy_load :: "(str \<Rightarrow> doc) option"
  read_csv :: "str \<Rightarrow> py_error + str option list list"
  pdf_pages :: "str \<Rightarrow> py_error + str option list"
  now_year :: int

text \<open>
  \<open>df.stack().dropna().astype(str).str.lower().unique()\<close>, then
  \<open>sorted(skills, key=lambda x: (-len(x), x))\<close>; any exception becomes
  \<open>RuntimeError\<close>.
\<close>

definition load_skills :: "unicode_db \<Rightarrow> system \<Rightarrow> str \<Rightarrow> py_error + str list" where
  "load_skills U sys csv_path =
     (case read_csv sys csv_path of
        Inl e \<Rightarrow> Inl RuntimeError
      | Inr df \<Rightarrow>
          Inr (sort_key by_length
                 (unique (map (lower U) (List.map_filter (\<lambda>cell. cell) (concat df))))))"

definition init :: "unicode_db \<Rightarrow> system \<Rightarrow> str option \<Rightarrow> py_error + analyzer" where
  "init U sys skills_csv_path =
     (case spacy_load sys of
        None \<Rightarrow> Inl RuntimeError
      | Some model \<Rightarrow>
          (case (case skills_csv_path of
                   None \<Rightarrow> Inr []
                 | Some path \<Rightarrow> if path = [] then Inr [] else load_skills U sys path) of
             Inl e \<Rightarrow> Inl e
           | Inr skills \<Rightarrow>
               Inr \<lparr>nlp = model, known_skills = skills, current_year = now_year sys,
                    skill_blacklist = map ustr [''http'', ''github'', ''contribution'',
                      ''january'', ''february'', ''company'', ''owner'']\<rparr>))"

definition extract_text :: "system \<Rightarrow> str \<Rightarrow> py_error + str" where
  "extract_text sys resume_path =
     (case pdf_pages sys resume_path of
        Inl e \<Rightarrow> Inl RuntimeError
      | Inr pages \<Rightarrow>
          Inr (clean_text (join [10]
                 (map (\<lambda>page. case page of None \<Rightarrow> [] | Some t \<Rightarrow> t) pages))))"

text \<open>
  In Python a method receives the object and could assign its attributes. No method of
  the analyzer does outside \<open>__init__\<close>, so a call leaves the object it was given:
  the two public methods in state-passing form.
\<close>

definition analyze_call ::
  "unicode_db \<Rightarrow> library \<Rightarrow> analyzer \<Rightarrow> str \<Rightarrow> (string \<rightharpoonup> str) \<Rightarrow>
     (py_error + analysis_result) \<times> analyzer" where
  "analyze_call U L self resume_text job_data = (analyze U L self resume_text job_data, self)"

definition extract_text_call :: "system \<Rightarrow> analyzer \<Rightarrow> str \<Rightarrow> (py_error + str) \<times> analyzer" where
  "extract_text_call sys self resume_path = (extract_text sys resume_path, self)"

section \<open>Properties of text cleaning\<close>

subsection \<open>Cleaned text is tidy\<close>

text \<open>
  A text is tidy when its only whitespace characters are single spaces, no two of
  them adjacent.
\<close>

fun tidy :: "str \<Rightarrow> bool" where
  "tidy [] = True"
| "tidy [c] = (is_space c \<longrightarrow> c = 32)"
| "tidy (c # d # cs) = ((is_space c \<longrightarrow> c = 32 \<and> \<not> is_space d) \<and> tidy (d # cs))"

lemma is_space_32: "is_space 32"
  by (simp add: is_space_def)

lemma not_space_45: "\<not> is_space 45"
  by (simp add: is_space_def)

lemma bullet_not_space: "is_bullet c \<Longrightarrow> \<not> is_space c"
  by (auto simp: is_bullet_def is_space_def)

lemma sub_ws_head:
  "sub_ws t = y # ys \<Longrightarrow> \<exists>c cs. t = c # cs \<and> y = (if is_space c then 32 else c)"
  by (cases t) (auto split: if_splits)

lemma dropWhile_head: "dropWhile P xs = y # ys \<Longrightarrow> \<not> P y"
  by (metis dropWhile_eq_Cons_conv)

lemma tidy_Cons:
  "tidy (c # cs) \<longleftrightarrow> (is_space c \<longrightarrow> c = 32 \<and> (cs \<noteq> [] \<longrightarrow> \<not> is_space (hd cs))) \<and> tidy cs"
  by (cases cs) auto

lemma tidy_sub_ws: "tidy (sub_ws t)"
proof (induction t rule: sub_ws.induct)
  case 1
  show ?case by simp
next
  case (2 c cs)
  show ?case
  proof (cases "is_space c")
    case True
    have "\<not> is_space (hd (sub_ws (dropWhile is_space cs)))"
      if ne: "sub_ws (dropWhile is_space cs) \<noteq> []"
    proof -
      obtain y ys where e: "sub_ws (dropWhile is_space cs) = y # ys"
        using ne by (cases "sub_ws (dropWhile is_space cs)") auto
      then obtain d ds where d: "dropWhile is_space cs = d # ds"
        and y: "y = (if is_space d then 32 else d)"
        using sub_ws_head by blast
      from d have "\<not> is_space d" by (rule dropWhile_head)
      with y e show ?thesis by simp
    qed
    with True 2 show ?thesis by (simp add: tidy_Cons)
  next
    case False
    with 2 show ?thesis by (simp add: tidy_Cons)
  qed
qed

lemma sub_ws_tidy: "tidy t \<Longrightarrow> sub_ws t = t"
proof (induction t rule: tidy.induct)
  case 1
  show ?case by simp
next
  case (2 c)
  then show ?case by simp
next
  case (3 c d cs)
  then show ?case by auto
qed

lemma tidy_append: "tidy (xs @ ys) \<Longrightarrow> tidy xs \<and> tidy ys"
proof (induction xs rule: tidy.induct)
  case 1
  then show ?case by simp
next
  case (2 c)
  then show ?case by (cases ys) auto
next
  case (3 c d cs)
  then show ?case by auto
qed

lemma tidy_sub_bullets: "tidy t \<Longrightarrow> tidy (sub_bullets t)"
proof (induction t rule: tidy.induct)
  case 1
  show ?case by (simp add: sub_bullets_def)
next
  case (2 c)
  then show ?case by (auto simp: sub_bullets_def not_space_45 dest: bullet_not_space)
next
  case (3 c d cs)
  then show ?case by (auto simp: sub_bullets_def not_space_45 dest: bullet_not_space)
qed

lemma strip_decomp: "\<exists>a b. t = a @ strip t @ b"
proof -
  let ?u = "dropWhile is_space t"
  have "t = takeWhile is_space t @ ?u" by simp
  moreover have "rev ?u = takeWhile is_space (rev ?u) @ dropWhile is_space (rev ?u)" by simp
  then have "?u = strip t @ rev (takeWhile is_space (rev ?u))"
    unfolding strip_def by (metis rev_append rev_rev_ident)
  ultimately show ?thesis by metis
qed

lemma tidy_strip: "tidy t \<Longrightarrow> tidy (strip t)"
  using strip_decomp [of t] tidy_append by metis

lemma set_strip: "set (strip t) \<subseteq> set t"
  using strip_decomp [of t] by (metis Un_upper1 Un_upper2 set_append subset_trans)

lemma no_bullet_sub_bullets: "\<forall>c\<in>set (sub_bullets t). \<not> is_bullet c"
  by (auto simp: sub_bullets_def is_bullet_def)

lemma sub_bullets_id: "\<forall>c\<in>set t. \<not> is_bullet c \<Longrightarrow> sub_bullets t = t"
  by (simp add: sub_bullets_def map_idI)

lemma strip_no_lead: "dropWhile is_space (strip t) = strip t"
proof (cases "strip t")
  case Nil
  then show ?thesis by simp
next
  case (Cons y ys)
  let ?u = "dropWhile is_space t"
  have "rev ?u = takeWhile is_space (rev ?u) @ rev (strip t)"
    unfolding strip_def by simp
  then have "?u = strip t @ rev (takeWhile is_space (rev ?u))"
    by (metis rev_append rev_rev_ident)
  with Cons have "?u = y # (ys @ rev (takeWhile is_space (rev ?u)))" by simp
  then have "\<not> is_space y" by (rule dropWhile_head)
  with Cons show ?thesis by simp
qed

lemma strip_idem: "strip (strip t) = strip t"
proof -
  have "strip (strip t) = rev (dropWhile is_space (rev (strip t)))"
    unfolding strip_def [of "strip t"] by (simp only: strip_no_lead)
  also have "\<dots> = strip t"
    unfolding strip_def by simp
  finally show ?thesis .
qed

text \<open>
  C8: \<open>_clean_text\<close> is idempotent: cleaning an already cleaned text returns that
  text, for every input text.
\<close>

theorem clean_text_idempotent: "clean_text (clean_text t) = clean_text t"
proof -
  let ?u = "clean_text t"
  have "tidy ?u"
    unfolding clean_text_def by (intro tidy_strip tidy_sub_bullets tidy_sub_ws)
  then have ws: "sub_ws ?u = ?u" by (rule sub_ws_tidy)
  have "\<forall>c\<in>set ?u. \<not> is_bullet c"
    unfolding clean_text_def using set_strip no_bullet_sub_bullets by blast
  then have bl: "sub_bullets ?u = ?u" by (rule sub_bullets_id)
  have "strip ?u = ?u"
    unfolding clean_text_def by (rule strip_idem)
  with ws bl show ?thesis
    unfolding clean_text_def [of "clean_text t"] by simp
qed

text \<open>
  Each of the five code points of the class becomes a hyphen-minus, the private-use
  U+F0D8 among them, and the runs of whitespace single spaces.
\<close>

lemma clean_text_example:
  "clean_text ([32, 8226, 9] @ ustr ''2018'' @ [61656] @ ustr ''2022'' @ [10, 10, 9679, 8211, 8212, 160]) =
     ustr ''- 2018-2022 ---''"
  by (simp add: clean_text_def strip_def sub_bullets_def is_bullet_def is_space_def ustr_def)

subsection \<open>A cleaned text has one line\<close>

lemma tidy_space: "tidy t \<Longrightarrow> c \<in> set t \<Longrightarrow> is_space c \<Longrightarrow> c = 32"
  by (induction t rule: tidy.induct) auto

lemma tidy_clean_text: "tidy (clean_text t)"
  unfolding clean_text_def by (intro tidy_strip tidy_sub_bullets tidy_sub_ws)

lemma clean_text_no_newline: "10 \<notin> set (clean_text t)"
proof
  assume "10 \<in> set (clean_text t)"
  moreover have "is_space 10" by (simp add: is_space_def)
  ultimately have "(10::nat) = 32" using tidy_clean_text tidy_space by blast
  then show False by simp
qed

lemma split_no_separator: "\<forall>c\<in>set t. \<not> P c \<Longrightarrow> re_split (one_of P) t = [t]"
  by (induction t) (auto simp: one_of_def add_char_def)

lemma capture_single_line: "capture_lines section_name False [l] = []"
  by simp

lemma extract_section_one_line: "10 \<notin> set t \<Longrightarrow> extract_section t section_name = []"
proof -
  assume "10 \<notin> set t"
  then have "re_split (one_of (\<lambda>c. c = 10)) t = [t]"
    by (intro split_no_separator) auto
  then show ?thesis
    unfolding extract_section_def by (simp only: capture_single_line join.simps)
qed

lemma skill_lines_empty: "skill_lines U L self [] = []"
  by (simp add: skill_lines_def strip_def in_range_def)

text \<open>
  C3: for every text \<open>t\<close> and every section-name pattern, \<open>_extract_section\<close> of the
  cleaned text is the empty text (the cleaned text has no newline, so it is one line, and
  only lines after a heading line are captured); so on a cleaned text, as \<open>analyze\<close>
  passes it, \<open>_extract_skills\<close> finds no fragment in a skills section and returns the
  noun phrases.
\<close>

theorem cleaned_text_has_no_section:
  "extract_section (clean_text t) section_name = [] \<and>
   skill_lines U L self (extract_section (clean_text t) skills_section) = [] \<and>
   extract_skills U L self (clean_text t) = extract_noun_phrases U self (clean_text t)"
proof -
  have e: "extract_section (clean_text t) p = []" for p
    using clean_text_no_newline by (rule extract_section_one_line)
  then have "skill_lines U L self (extract_section (clean_text t) skills_section) = []"
    by (simp only: skill_lines_empty)
  then have "extract_skills U L self (clean_text t) = extract_noun_phrases U self (clean_text t)"
    unfolding extract_skills_def Let_def by simp
  with e show ?thesis by (simp only: skill_lines_empty simp_thms)
qed

section \<open>Properties of the scores\<close>

lemma rint_of_int: "rint (of_int n) = n"
  by (simp add: rint_def)

lemma rint_cases: "rint x = \<lfloor>x\<rfloor> \<or> rint x = \<lfloor>x\<rfloor> + 1"
  by (simp add: rint_def)

lemma rint_mono: "x \<le> y \<Longrightarrow> rint x \<le> rint y"
proof -
  assume xy: "x \<le> y"
  then have f: "\<lfloor>x\<rfloor> \<le> \<lfloor>y\<rfloor>" by (rule floor_mono)
  show ?thesis
  proof (cases "\<lfloor>x\<rfloor> = \<lfloor>y\<rfloor>")
    case True
    with xy show ?thesis unfolding rint_def by auto
  next
    case False
    with f have "\<lfloor>x\<rfloor> + 1 \<le> \<lfloor>y\<rfloor>" by simp
    moreover have "rint x \<le> \<lfloor>x\<rfloor> + 1" using rint_cases [of x] by auto
    moreover have "\<lfloor>y\<rfloor> \<le> rint y" using rint_cases [of y] by auto
    ultimately show ?thesis by linarith
  qed
qed

lemma rint_close: "\<bar>of_int (rint x) - x\<bar> \<le> 1 / 2"
  unfolding rint_def by (auto simp: abs_le_iff; linarith)

subsection \<open>Rounding to a double\<close>

text \<open>
  The rounding error is at most half a unit in the last place, and \<open>fl x\<close> is computed
  by \<open>fl_eval\<close> once the binade of \<open>x\<close> is known: \<open>j\<close> is the number of binary places
  of the doubles there.
\<close>

lemma fl_0: "fl 0 = 0"
  by (simp add: fl_def rint_def)

lemma scaled_abs: "0 < u \<Longrightarrow> \<bar>a - x / u\<bar> * u = \<bar>a * u - x\<bar>" for a x u :: real
proof -
  assume u: "0 < u"
  have "(a - x / u) * u = a * u - x" using u by (simp add: field_simps)
  then have "\<bar>a * u - x\<bar> = \<bar>a - x / u\<bar> * \<bar>u\<bar>" by (simp only: abs_mult [symmetric])
  with u show ?thesis by simp
qed

lemma fl_err_ulp: "\<bar>fl x - x\<bar> \<le> 2 powr of_int (ulp_exp x) / 2"
proof -
  let ?u = "2 powr of_int (ulp_exp x) :: real"
  have u: "0 < ?u" by simp
  have "\<bar>of_int (rint (x / ?u)) - x / ?u\<bar> \<le> 1 / 2" by (rule rint_close)
  then have "\<bar>of_int (rint (x / ?u)) - x / ?u\<bar> * ?u \<le> 1 / 2 * ?u"
    using u by (intro mult_right_mono) simp_all
  then show ?thesis unfolding fl_def scaled_abs [OF u] by simp
qed

lemma floor_log2_le: "0 < x \<Longrightarrow> x \<le> 2 ^ k \<Longrightarrow> \<lfloor>log 2 x\<rfloor> \<le> int k" for x :: real
proof -
  assume x: "0 < x" "x \<le> 2 ^ k"
  have "(2::real) powr real k = 2 ^ k" by (simp add: powr_realpow)
  with x have "log 2 x \<le> real k" by (simp add: log_le_iff)
  then have "log 2 x \<le> of_int (int k)" by simp
  then show ?thesis by (metis floor_mono floor_of_int)
qed

lemma floor_log2_less: "0 < x \<Longrightarrow> x < 2 ^ k \<Longrightarrow> \<lfloor>log 2 x\<rfloor> < int k" for x :: real
proof -
  assume x: "0 < x" "x < 2 ^ k"
  have "(2::real) powr real k = 2 ^ k" by (simp add: powr_realpow)
  with x have "log 2 x < real k" by (simp add: log_less_iff)
  then have "log 2 x < of_int (int k)" by simp
  then show ?thesis by (simp only: floor_less_iff)
qed

lemma ulp_exp_le: "\<bar>x\<bar> \<le> 2 ^ k \<Longrightarrow> ulp_exp x \<le> int k - 52"
proof (cases "\<bar>x\<bar> < 1 / 2 ^ 1022")
  case True
  then show ?thesis by (simp add: ulp_exp_def)
next
  case False
  assume k: "\<bar>x\<bar> \<le> 2 ^ k"
  from False have "0 < \<bar>x\<bar>" by (smt (verit) zero_less_divide_1_iff zero_less_numeral zero_less_power)
  then have "\<lfloor>log 2 \<bar>x\<bar>\<rfloor> \<le> int k" using k by (rule floor_log2_le)
  with False show ?thesis by (simp add: ulp_exp_def)
qed

lemma powr_int_diff: "2 powr of_int (int k - 52) = (2 ^ k / 2 ^ 52 :: real)"
  by (simp add: powr_diff powr_realpow)

lemma fl_err: "\<bar>x\<bar> \<le> 2 ^ k \<Longrightarrow> \<bar>fl x - x\<bar> \<le> 2 ^ k / 2 ^ 53"
proof -
  assume "\<bar>x\<bar> \<le> 2 ^ k"
  then have "ulp_exp x \<le> int k - 52" by (rule ulp_exp_le)
  then have "(2::real) powr of_int (ulp_exp x) \<le> 2 powr of_int (int k - 52)"
    by (intro powr_mono) simp_all
  then have "2 powr of_int (ulp_exp x) \<le> (2 ^ k / 2 ^ 52 :: real)"
    by (simp only: powr_int_diff)
  with fl_err_ulp [of x] show ?thesis by simp
qed

lemma fl_nonneg: "0 \<le> x \<Longrightarrow> 0 \<le> fl x"
proof -
  assume "0 \<le> x"
  then have "0 \<le> x / 2 powr of_int (ulp_exp x)" by simp
  then have "rint 0 \<le> rint (x / 2 powr of_int (ulp_exp x))" by (rule rint_mono)
  then have "0 \<le> rint (x / 2 powr of_int (ulp_exp x))" using rint_of_int [of 0] by simp
  then show ?thesis unfolding fl_def by simp
qed

lemma ulp_exp_scale:
  assumes "ulp_exp x = - int j"
  shows "fl x = of_int (rint (x * 2 ^ j)) / 2 ^ j"
proof -
  have "2 powr of_int (ulp_exp x) = (1 / 2 ^ j :: real)"
    unfolding assms by (simp add: powr_minus powr_realpow divide_simps)
  then show ?thesis unfolding fl_def by simp
qed

lemma ulp_exp_nonpos: "\<bar>x\<bar> < 2 ^ 53 \<Longrightarrow> ulp_exp x \<le> 0"
proof (cases "\<bar>x\<bar> < 1 / 2 ^ 1022")
  case True
  then show ?thesis by (simp add: ulp_exp_def)
next
  case False
  assume k: "\<bar>x\<bar> < 2 ^ 53"
  from False have "0 < \<bar>x\<bar>" by (smt (verit) zero_less_divide_1_iff zero_less_numeral zero_less_power)
  then have "\<lfloor>log 2 \<bar>x\<bar>\<rfloor> < int 53" using k by (rule floor_log2_less)
  with False show ?thesis by (simp add: ulp_exp_def)
qed

lemma fl_le_int: "x \<le> of_int N \<Longrightarrow> \<bar>x\<bar> < 2 ^ 53 \<Longrightarrow> fl x \<le> of_int N"
proof -
  assume x: "x \<le> of_int N" and "\<bar>x\<bar> < 2 ^ 53"
  then have "ulp_exp x \<le> 0" by (intro ulp_exp_nonpos)
  then obtain j where j: "ulp_exp x = - int j" by (metis nonpos_int_cases)
  have "x * 2 ^ j \<le> of_int (N * 2 ^ j)" using x by simp
  then have "rint (x * 2 ^ j) \<le> rint (of_int (N * 2 ^ j))" by (rule rint_mono)
  then have "rint (x * 2 ^ j) \<le> N * 2 ^ j" by (simp only: rint_of_int)
  then have "real_of_int (rint (x * 2 ^ j)) \<le> of_int N * 2 ^ j"
    by (metis of_int_le_iff of_int_mult of_int_numeral of_int_power)
  then show ?thesis unfolding ulp_exp_scale [OF j] by (simp add: divide_le_eq)
qed

lemma ulp_exp_eval:
  assumes "2 ^ 52 \<le> \<bar>x\<bar> * 2 ^ j" "\<bar>x\<bar> * 2 ^ j < 2 ^ 53" "j \<le> 1074"
  shows "ulp_exp x = - int j"
proof -
  have p: "(0::real) < 2 ^ j" by simp
  have lo: "2 ^ 52 / 2 ^ j \<le> \<bar>x\<bar>" using assms(1) p by (simp add: divide_le_eq)
  have hi: "\<bar>x\<bar> < 2 ^ 53 / 2 ^ j" using assms(2) p by (simp add: less_divide_eq)
  have "(1::real) / 2 ^ 1022 = 2 ^ 52 / 2 ^ 1074" by simp
  also have "\<dots> \<le> 2 ^ 52 / 2 ^ j"
    using assms(3) by (intro divide_left_mono power_increasing) simp_all
  finally have big: "\<not> \<bar>x\<bar> < 1 / 2 ^ 1022" using lo by linarith
  have pos: "0 < \<bar>x\<bar>" using lo p by (smt (verit) divide_pos_pos zero_less_numeral zero_less_power)
  have a: "(2::real) powr of_int (52 - int j) = 2 ^ 52 / 2 ^ j"
    by (simp add: powr_diff powr_realpow)
  have b: "(2::real) powr of_int (52 - int j + 1) = 2 ^ 53 / 2 ^ j"
    by (simp add: powr_diff powr_add powr_realpow)
  have "2 powr of_int (52 - int j) \<le> \<bar>x\<bar> \<and> \<bar>x\<bar> < 2 powr of_int (52 - int j + 1)"
    unfolding a b using lo hi by simp
  moreover have "(1::real) < 2" by simp
  ultimately have "\<lfloor>log 2 \<bar>x\<bar>\<rfloor> = 52 - int j"
    using floor_log_eq_powr_iff [OF pos, of 2 "52 - int j"] by blast
  with big show ?thesis by (simp add: ulp_exp_def)
qed

lemma fl_eval:
  "2 ^ 52 \<le> \<bar>x\<bar> * 2 ^ j \<Longrightarrow> \<bar>x\<bar> * 2 ^ j < 2 ^ 53 \<Longrightarrow> j \<le> 1074 \<Longrightarrow>
   of_int (rint (x * 2 ^ j)) / 2 ^ j = v \<Longrightarrow> fl x = v"
  using ulp_exp_scale [OF ulp_exp_eval] by simp

subsection \<open>The weights, the percentage and its rounding\<close>

lemma weight_040: "fl 0.4 = 3602879701896397 / 9007199254740992"
  by (rule fl_eval [where j = 54]) (simp_all add: rint_def)

lemma weight_015: "fl 0.15 = 5404319552844595 / 36028797018963968"
  by (rule fl_eval [where j = 55]) (simp_all add: rint_def)

lemma weight_005: "fl 0.05 = 3602879701896397 / 72057594037927936"
  by (rule fl_eval [where j = 57]) (simp_all add: rint_def)

lemma fl_err1: "\<bar>x\<bar> \<le> 2 \<Longrightarrow> \<bar>fl x - x\<bar> \<le> 1 / 1000000000000000"
proof -
  assume "\<bar>x\<bar> \<le> 2"
  then have "\<bar>fl x - x\<bar> \<le> 2 ^ 1 / 2 ^ 53" by (intro fl_err) simp
  then show ?thesis by simp
qed

lemma fl_err7: "\<bar>x\<bar> \<le> 128 \<Longrightarrow> \<bar>fl x - x\<bar> \<le> 1 / 10000000000000"
proof -
  assume "\<bar>x\<bar> \<le> 128"
  then have "\<bar>fl x - x\<bar> \<le> 2 ^ 7 / 2 ^ 53" by (intro fl_err) simp
  then show ?thesis by simp
qed

lemma fl_err14: "\<bar>x\<bar> \<le> 16384 \<Longrightarrow> \<bar>fl x - x\<bar> \<le> 1 / 100000000000"
proof -
  assume "\<bar>x\<bar> \<le> 16384"
  then have "\<bar>fl x - x\<bar> \<le> 2 ^ 14 / 2 ^ 53" by (intro fl_err) simp
  then show ?thesis by simp
qed

text \<open>The percentage of a sub-score, and its rounding to two decimals.\<close>

lemma percent_err:
  assumes "0 \<le> s" "s \<le> 1"
  shows "0 \<le> fmul s 100" "fmul s 100 \<le> 101" "\<bar>fmul s 100 - 100 * s\<bar> \<le> 1 / 10000000000000"
proof -
  have a: "\<bar>s * 100\<bar> \<le> 128" using assms by simp
  from fl_err7 [OF a] show "\<bar>fmul s 100 - 100 * s\<bar> \<le> 1 / 10000000000000"
    unfolding fmul_def by (simp add: mult.commute)
  then show "fmul s 100 \<le> 101" using assms by linarith
  show "0 \<le> fmul s 100" unfolding fmul_def using assms by (intro fl_nonneg) simp
qed

lemma np_round_err:
  assumes "0 \<le> x" "x \<le> 101"
  shows "\<exists>n::int. 0 \<le> n \<and> np_round x 2 = fl (of_int n / 100) \<and>
           \<bar>of_int n - 100 * x\<bar> \<le> 1 / 2 + 1 / 100000000000 \<and>
           (x \<le> 100 + 1 / 1000 \<longrightarrow> n \<le> 10000) \<and>
           \<bar>np_round x 2 - x\<bar> \<le> 5 / 1000 + 1 / 1000000000000"
proof -
  define y where "y = fl (x * 100)"
  define n where "n = rint y"
  have a: "\<bar>x * 100\<bar> \<le> 16384" using assms by simp
  have y: "\<bar>y - x * 100\<bar> \<le> 1 / 100000000000" unfolding y_def by (rule fl_err14 [OF a])
  have y0: "0 \<le> y" unfolding y_def using assms by (intro fl_nonneg) simp
  have n0: "0 \<le> n" unfolding n_def using rint_mono [OF y0] rint_of_int [of 0] by simp
  have ny: "\<bar>of_int n - y\<bar> \<le> 1 / 2" unfolding n_def by (rule rint_close)
  have nx: "\<bar>of_int n - 100 * x\<bar> \<le> 1 / 2 + 1 / 100000000000" using y ny by linarith
  have nr: "0 \<le> real_of_int n" using n0 by simp
  have nu: "real_of_int n \<le> 12800" using nx assms by linarith
  have nb: "\<bar>real_of_int n / 100\<bar> \<le> 128" using nr nu by simp
  have r: "np_round x 2 = fl (of_int n / 100)"
    unfolding np_round_def fmul_def fdiv_def n_def y_def by simp
  have e: "\<bar>fl (of_int n / 100) - of_int n / 100\<bar> \<le> 1 / 10000000000000" by (rule fl_err7 [OF nb])
  have t: "\<bar>np_round x 2 - x\<bar> \<le> 5 / 1000 + 1 / 1000000000000" unfolding r using e nx by linarith
  have u: "n \<le> 10000" if "x \<le> 100 + 1 / 1000"
  proof -
    from that y have "y \<le> 10000 + 1 / 4" by linarith
    then have "rint y \<le> rint (10000 + 1 / 4)" by (rule rint_mono)
    moreover have "rint (10000 + 1 / 4) = 10000" by (simp add: rint_def)
    ultimately show ?thesis unfolding n_def by simp
  qed
  from n0 r nx t u show ?thesis by blast
qed

lemma fl_near:
  assumes "0 \<le> x" "x \<le> 128"
  shows "x - 1 / 10000000000000 \<le> fl x" "fl x \<le> x + 1 / 10000000000000"
proof -
  from assms have "\<bar>x\<bar> \<le> 128" by simp
  then have "\<bar>fl x - x\<bar> \<le> 1 / 10000000000000" by (rule fl_err7)
  then show "x - 1 / 10000000000000 \<le> fl x" "fl x \<le> x + 1 / 10000000000000" by linarith+
qed

lemma fl_step:
  assumes "0 \<le> x" "x \<le> 2"
  shows "x - 1 / 1000000000000000 \<le> fl x" "fl x \<le> x + 1 / 1000000000000000" "0 \<le> fl x"
proof -
  from assms have "\<bar>x\<bar> \<le> 2" by simp
  then have "\<bar>fl x - x\<bar> \<le> 1 / 1000000000000000" by (rule fl_err1)
  then show "x - 1 / 1000000000000000 \<le> fl x" "fl x \<le> x + 1 / 1000000000000000"
    by linarith+
  show "0 \<le> fl x" using assms(1) by (rule fl_nonneg)
qed

lemma weighted_err:
  assumes "0 \<le> s" "s \<le> 1" "0 \<le> k" "k \<le> 1" "0 \<le> e" "e \<le> 1" "0 \<le> d" "d \<le> 1"
  defines "w \<equiv> fadd (fadd (fadd (fmul (fl 0.4) s) (fmul (fl 0.4) k)) (fmul (fl 0.15) e))
                  (fmul (fl 0.05) d)"
  shows "0 \<le> w" "\<bar>w - (4 / 10 * s + 4 / 10 * k + 15 / 100 * e + 5 / 100 * d)\<bar> \<le> 1 / 10000000000000"
proof -
  define c1 :: real where "c1 = 3602879701896397 / 9007199254740992"
  define c3 :: real where "c3 = 5404319552844595 / 36028797018963968"
  define c4 :: real where "c4 = 3602879701896397 / 72057594037927936"
  define p1 where "p1 = fl (c1 * s)"
  define p2 where "p2 = fl (c1 * k)"
  define p3 where "p3 = fl (c3 * e)"
  define p4 where "p4 = fl (c4 * d)"
  define a1 where "a1 = fl (p1 + p2)"
  define a2 where "a2 = fl (a1 + p3)"
  define W where "W = 4 / 10 * s + 4 / 10 * k + 15 / 100 * e + 5 / 100 * d"
  have w: "w = fl (a2 + p4)"
    unfolding w_def fadd_def fmul_def weight_040 weight_015 weight_005
      a2_def a1_def p1_def p2_def p3_def p4_def c1_def c3_def c4_def ..
  have q1: "0 \<le> c1 * s" "c1 * s \<le> 41 / 100"
    "4 / 10 * s - 1 / 1000000000000000 \<le> c1 * s" "c1 * s \<le> 4 / 10 * s + 1 / 1000000000000000"
    using assms(1,2) unfolding c1_def by simp_all
  have q2: "0 \<le> c1 * k" "c1 * k \<le> 41 / 100"
    "4 / 10 * k - 1 / 1000000000000000 \<le> c1 * k" "c1 * k \<le> 4 / 10 * k + 1 / 1000000000000000"
    using assms(3,4) unfolding c1_def by simp_all
  have q3: "0 \<le> c3 * e" "c3 * e \<le> 16 / 100"
    "15 / 100 * e - 1 / 1000000000000000 \<le> c3 * e" "c3 * e \<le> 15 / 100 * e + 1 / 1000000000000000"
    using assms(5,6) unfolding c3_def by simp_all
  have q4: "0 \<le> c4 * d" "c4 * d \<le> 6 / 100"
    "5 / 100 * d - 1 / 1000000000000000 \<le> c4 * d" "c4 * d \<le> 5 / 100 * d + 1 / 1000000000000000"
    using assms(7,8) unfolding c4_def by simp_all
  have m1: "c1 * s \<le> 2" "c1 * k \<le> 2" "c3 * e \<le> 2" "c4 * d \<le> 2"
    using q1(2) q2(2) q3(2) q4(2) by linarith+
  note e1 = fl_step [OF q1(1) m1(1), folded p1_def]
  note e2 = fl_step [OF q2(1) m1(2), folded p2_def]
  note e3 = fl_step [OF q3(1) m1(3), folded p3_def]
  note e4 = fl_step [OF q4(1) m1(4), folded p4_def]
  have b1: "0 \<le> p1 + p2" "p1 + p2 \<le> 2" using e1 e2 q1(2) q2(2) by linarith+
  note f1 = fl_step [OF b1, folded a1_def]
  have b2: "0 \<le> a1 + p3" "a1 + p3 \<le> 2" using f1 e1 e2 e3 q1(2) q2(2) q3(2) by linarith+
  note f2 = fl_step [OF b2, folded a2_def]
  have b3: "0 \<le> a2 + p4" "a2 + p4 \<le> 2"
    using f2 f1 e1 e2 e3 e4 q1(2) q2(2) q3(2) q4(2) by linarith+
  note f3 = fl_step [OF b3, folded w]
  show "0 \<le> w" by (rule f3)
  have "w \<le> W + 1 / 10000000000000"
    unfolding W_def using f3(2) f2(2) f1(2) e1(2) e2(2) e3(2) e4(2) q1(4) q2(4) q3(4) q4(4)
    by linarith
  moreover have "W - 1 / 10000000000000 \<le> w"
    unfolding W_def using f3(1) f2(1) f1(1) e1(1) e2(1) e3(1) e4(1) q1(3) q2(3) q3(3) q4(3)
    by linarith
  ultimately show "\<bar>w - (4 / 10 * s + 4 / 10 * k + 15 / 100 * e + 5 / 100 * d)\<bar>
      \<le> 1 / 10000000000000"
    unfolding W_def by linarith
qed

text \<open>
  For sub-scores in \<open>[0, 1]\<close> the compatibility score is the double nearest to a number
  \<open>n / 100\<close> of hundredths, and \<open>n / 100\<close> is nearest to the exact weighted percentage
  up to the rounding errors of the seven operations before \<open>rint\<close>.
\<close>

lemma compatibility_score_nearest:
  assumes "0 \<le> s" "s \<le> 1" "0 \<le> k" "k \<le> 1" "0 \<le> e" "e \<le> 1" "0 \<le> d" "d \<le> 1"
  shows "0 \<le> calculate_compatibility_score s k e d \<and>
         calculate_compatibility_score s k e d \<le> 100 \<and>
         (\<exists>n::int. 0 \<le> n \<and> n \<le> 10000 \<and>
            calculate_compatibility_score s k e d = fl (of_int n / 100) \<and>
            \<bar>of_int n / 100 - 100 * (0.4 * s + 0.4 * k + 0.15 * e + 0.05 * d)\<bar>
              \<le> 0.005 + 1 / 10000000000)"
proof -
  define w where "w = fadd (fadd (fadd (fmul (fl 0.4) s) (fmul (fl 0.4) k)) (fmul (fl 0.15) e))
                  (fmul (fl 0.05) d)"
  define W where "W = 4 / 10 * s + 4 / 10 * k + 15 / 100 * e + 5 / 100 * d"
  define x where "x = fmul w 100"
  have c: "calculate_compatibility_score s k e d = np_round x 2"
    unfolding calculate_compatibility_score_def Let_def x_def w_def ..
  have w: "0 \<le> w" "\<bar>w - W\<bar> \<le> 1 / 10000000000000"
    unfolding w_def W_def by (rule weighted_err [OF assms])+
  have Wb: "0 \<le> W" "W \<le> 1" unfolding W_def using assms by simp_all
  have a: "\<bar>w * 100\<bar> \<le> 128" using w Wb by linarith
  have x: "\<bar>x - w * 100\<bar> \<le> 1 / 10000000000000" unfolding x_def fmul_def by (rule fl_err7 [OF a])
  have x0: "0 \<le> x" unfolding x_def fmul_def using w by (intro fl_nonneg) simp
  have xu: "x \<le> 100 + 1 / 1000" "x \<le> 101" using x w Wb by linarith+
  from np_round_err [OF x0 xu(2)] xu(1) obtain n :: int where
    n: "0 \<le> n" "n \<le> 10000" "np_round x 2 = fl (of_int n / 100)"
      "\<bar>of_int n - 100 * x\<bar> \<le> 1 / 2 + 1 / 100000000000"
    by blast
  have d: "\<bar>of_int n / 100 - 100 * W\<bar> \<le> 5 / 1000 + 1 / 10000000000"
    using n(4) x w by linarith
  have lo: "0 \<le> fl (of_int n / 100)" using n(1) by (intro fl_nonneg) simp
  have "real_of_int n / 100 \<le> of_int 100" using n(2) by simp
  moreover have "\<bar>real_of_int n / 100\<bar> < 2 ^ 53" using n(1,2) by simp
  ultimately have "fl (of_int n / 100) \<le> of_int 100" by (rule fl_le_int)
  then have hi: "fl (of_int n / 100) \<le> 100" by simp
  have "100 * (0.4 * s + 0.4 * k + 0.15 * e + 0.05 * d) = 100 * W" unfolding W_def by simp
  with d have d': "\<bar>of_int n / 100 - 100 * (0.4 * s + 0.4 * k + 0.15 * e + 0.05 * d)\<bar>
      \<le> 0.005 + 1 / 10000000000" by simp
  show ?thesis unfolding c n(3) using lo hi n(1,2) d' by blast
qed

subsection \<open>The scores at some sub-scores\<close>

text \<open>Each operation of the code in turn, with the double it returns.\<close>

lemma score_at_tie:
  "calculate_compatibility_score (3 / 64) 0 (1 / 2) 1 = fl (1437 / 100)"
proof -
  have s1: "fmul (fl 0.4) (3 / 64) = 1351079888211149 / 72057594037927936"
    unfolding fmul_def weight_040 by (rule fl_eval [where j = 58]) (simp_all add: rint_def)
  have s2: "fmul (fl 0.4) 0 = 0" by (simp add: fmul_def weight_040 fl_0)
  have s3: "fmul (fl 0.15) (1 / 2) = 5404319552844595 / 72057594037927936"
    unfolding fmul_def weight_015 by (rule fl_eval [where j = 56]) (simp_all add: rint_def)
  have s4: "fmul (fl 0.05) 1 = 3602879701896397 / 72057594037927936"
    unfolding fmul_def weight_005 by (rule fl_eval [where j = 57]) (simp_all add: rint_def)
  have s5: "fadd (1351079888211149 / 72057594037927936) 0 = 1351079888211149 / 72057594037927936"
    unfolding fadd_def by (rule fl_eval [where j = 58]) (simp_all add: rint_def)
  have s6: "fadd (1351079888211149 / 72057594037927936) (5404319552844595 / 72057594037927936) = 3 / 32"
    unfolding fadd_def by (rule fl_eval [where j = 56]) (simp_all add: rint_def)
  have s7: "fadd (3 / 32) (3602879701896397 / 72057594037927936) = 2589569785738035 / 18014398509481984"
    unfolding fadd_def by (rule fl_eval [where j = 55]) (simp_all add: rint_def)
  have s8: "fmul (2589569785738035 / 18014398509481984) 100 = 8092405580431359 / 562949953421312"
    unfolding fmul_def by (rule fl_eval [where j = 49]) (simp_all add: rint_def)
  have s9: "fmul (8092405580431359 / 562949953421312) (10 ^ 2) = 6322191859711999 / 4398046511104"
    unfolding fmul_def by (rule fl_eval [where j = 42]) (simp_all add: rint_def)
  have s10: "rint (6322191859711999 / 4398046511104) = 1437" by (simp add: rint_def)
  show ?thesis
    unfolding calculate_compatibility_score_def Let_def np_round_def s1 s2 s3 s4 s5 s6 s7 s8 s9 s10 fdiv_def
    by simp
qed

lemma score_at_tie_2:
  "calculate_compatibility_score (17 / 64) 0 0 0 = fl (1063 / 100)"
proof -
  have s1: "fmul (fl 0.4) (17 / 64) = 1914029841632461 / 18014398509481984"
    unfolding fmul_def weight_040 by (rule fl_eval [where j = 56]) (simp_all add: rint_def)
  have s2: "fmul (fl 0.4) 0 = 0" by (simp add: fmul_def weight_040 fl_0)
  have s3: "fmul (fl 0.15) 0 = 0" by (simp add: fmul_def weight_015 fl_0)
  have s4: "fmul (fl 0.05) 0 = 0" by (simp add: fmul_def weight_005 fl_0)
  have s5: "fadd (1914029841632461 / 18014398509481984) 0 = 1914029841632461 / 18014398509481984"
    unfolding fadd_def by (rule fl_eval [where j = 56]) (simp_all add: rint_def)
  have s6: "fmul (1914029841632461 / 18014398509481984) 100 = 5981343255101441 / 562949953421312"
    unfolding fmul_def by (rule fl_eval [where j = 49]) (simp_all add: rint_def)
  have s7: "fmul (5981343255101441 / 562949953421312) (10 ^ 2) = 4672924418048001 / 4398046511104"
    unfolding fmul_def by (rule fl_eval [where j = 42]) (simp_all add: rint_def)
  have s8: "rint (4672924418048001 / 4398046511104) = 1063" by (simp add: rint_def)
  show ?thesis
    unfolding calculate_compatibility_score_def Let_def np_round_def s1 s2 s3 s4 s5 s6 s7 s8 fdiv_def
    by simp
qed

lemma score_all_ones:
  "calculate_compatibility_score 1 1 1 1 = 100"
proof -
  have s1: "fmul (fl 0.4) 1 = 3602879701896397 / 9007199254740992"
    unfolding fmul_def weight_040 by (rule fl_eval [where j = 54]) (simp_all add: rint_def)
  have s2: "fmul (fl 0.15) 1 = 5404319552844595 / 36028797018963968"
    unfolding fmul_def weight_015 by (rule fl_eval [where j = 55]) (simp_all add: rint_def)
  have s3: "fmul (fl 0.05) 1 = 3602879701896397 / 72057594037927936"
    unfolding fmul_def weight_005 by (rule fl_eval [where j = 57]) (simp_all add: rint_def)
  have s4: "fadd (3602879701896397 / 9007199254740992) (3602879701896397 / 9007199254740992) = 3602879701896397 / 4503599627370496"
    unfolding fadd_def by (rule fl_eval [where j = 53]) (simp_all add: rint_def)
  have s5: "fadd (3602879701896397 / 4503599627370496) (5404319552844595 / 36028797018963968) = 8556839292003943 / 9007199254740992"
    unfolding fadd_def by (rule fl_eval [where j = 53]) (simp_all add: rint_def)
  have s6: "fadd (8556839292003943 / 9007199254740992) (3602879701896397 / 72057594037927936) = 1"
    unfolding fadd_def by (rule fl_eval [where j = 52]) (simp_all add: rint_def)
  have s7: "fmul 1 100 = 100"
    unfolding fmul_def by (rule fl_eval [where j = 46]) (simp_all add: rint_def)
  have s8: "fmul 100 (10 ^ 2) = 10000"
    unfolding fmul_def by (rule fl_eval [where j = 39]) (simp_all add: rint_def)
  have s9: "rint 10000 = 10000" by (simp add: rint_def)
  have s10: "fdiv 10000 (10 ^ 2) = 100"
    unfolding fdiv_def by (rule fl_eval [where j = 46]) (simp_all add: rint_def)
  show ?thesis
    unfolding calculate_compatibility_score_def Let_def np_round_def s1 s2 s3 s4 s5 s6 s7 s8 s9
    by (simp only: of_int_numeral s10)
qed

lemma score_all_hundreds:
  "calculate_compatibility_score 100 100 100 100 = 10000"
proof -
  have s1: "fmul (fl 0.4) 100 = 40"
    unfolding fmul_def weight_040 by (rule fl_eval [where j = 47]) (simp_all add: rint_def)
  have s2: "fmul (fl 0.15) 100 = 15"
    unfolding fmul_def weight_015 by (rule fl_eval [where j = 49]) (simp_all add: rint_def)
  have s3: "fmul (fl 0.05) 100 = 5"
    unfolding fmul_def weight_005 by (rule fl_eval [where j = 50]) (simp_all add: rint_def)
  have s4: "fadd 40 40 = 80"
    unfolding fadd_def by (rule fl_eval [where j = 46]) (simp_all add: rint_def)
  have s5: "fadd 80 15 = 95"
    unfolding fadd_def by (rule fl_eval [where j = 46]) (simp_all add: rint_def)
  have s6: "fadd 95 5 = 100"
    unfolding fadd_def by (rule fl_eval [where j = 46]) (simp_all add: rint_def)
  have s7: "fmul 100 100 = 10000"
    unfolding fmul_def by (rule fl_eval [where j = 39]) (simp_all add: rint_def)
  have s8: "fmul 10000 (10 ^ 2) = 1000000"
    unfolding fmul_def by (rule fl_eval [where j = 33]) (simp_all add: rint_def)
  have s9: "rint 1000000 = 1000000" by (simp add: rint_def)
  have s10: "fdiv 1000000 (10 ^ 2) = 10000"
    unfolding fdiv_def by (rule fl_eval [where j = 39]) (simp_all add: rint_def)
  show ?thesis
    unfolding calculate_compatibility_score_def Let_def np_round_def s1 s2 s3 s4 s5 s6 s7 s8 s9
    by (simp only: of_int_numeral s10)
qed

lemma score_eighth:
  "calculate_compatibility_score 0 0 (1 / 8) (3 / 4) = fl (563 / 100)"
proof -
  have s1: "fmul (fl 0.4) 0 = 0" by (simp add: fmul_def weight_040 fl_0)
  have s2: "fmul (fl 0.15) (1 / 8) = 5404319552844595 / 288230376151711744"
    unfolding fmul_def weight_015 by (rule fl_eval [where j = 58]) (simp_all add: rint_def)
  have s3: "fmul (fl 0.05) (3 / 4) = 1351079888211149 / 36028797018963968"
    unfolding fmul_def weight_005 by (rule fl_eval [where j = 57]) (simp_all add: rint_def)
  have s4: "fadd 0 0 = 0" by (simp add: fadd_def fl_0)
  have s5: "fadd 0 (5404319552844595 / 288230376151711744) = 5404319552844595 / 288230376151711744"
    unfolding fadd_def by (rule fl_eval [where j = 58]) (simp_all add: rint_def)
  have s6: "fadd (5404319552844595 / 288230376151711744) (1351079888211149 / 36028797018963968) = 4053239664633447 / 72057594037927936"
    unfolding fadd_def by (rule fl_eval [where j = 57]) (simp_all add: rint_def)
  have s7: "fmul (4053239664633447 / 72057594037927936) 100 = 6333186975989761 / 1125899906842624"
    unfolding fmul_def by (rule fl_eval [where j = 50]) (simp_all add: rint_def)
  have s8: "fmul (6333186975989761 / 1125899906842624) (10 ^ 2) = 4947802324992001 / 8796093022208"
    unfolding fmul_def by (rule fl_eval [where j = 43]) (simp_all add: rint_def)
  have s9: "rint (4947802324992001 / 8796093022208) = 563" by (simp add: rint_def)
  show ?thesis
    unfolding calculate_compatibility_score_def Let_def np_round_def s1 s2 s3 s4 s5 s6 s7 s8 s9 fdiv_def
    by simp
qed

lemma percent_one: "np_round (fmul 1 100) 2 = 100"
proof -
  have s1: "fmul 1 100 = 100"
    unfolding fmul_def by (rule fl_eval [where j = 46]) (simp_all add: rint_def)
  have s2: "fmul 100 (10 ^ 2) = 10000"
    unfolding fmul_def by (rule fl_eval [where j = 39]) (simp_all add: rint_def)
  have s3: "rint 10000 = 10000" by (simp add: rint_def)
  have s4: "fdiv 10000 (10 ^ 2) = 100"
    unfolding fdiv_def by (rule fl_eval [where j = 46]) (simp_all add: rint_def)
  show ?thesis
    unfolding np_round_def s1 s2 s3
    by (simp only: of_int_numeral of_int_0 s4)
qed

lemma percent_zero: "np_round (fmul 0 100) 2 = 0"
proof -
  have s1: "fmul 0 100 = 0" by (simp add: fmul_def fl_0)
  have s2: "fmul 0 (10 ^ 2) = 0" by (simp add: fmul_def fl_0)
  have s3: "rint 0 = 0" by (simp add: rint_def)
  have s4: "fdiv 0 (10 ^ 2) = 0" by (simp add: fdiv_def fl_0)
  show ?thesis
    unfolding np_round_def s1 s2 s3
    by (simp only: of_int_numeral of_int_0 s4)
qed

lemma percent_eighth: "np_round (fmul (1 / 8) 100) 2 = 25 / 2"
proof -
  have s1: "fmul (1 / 8) 100 = 25 / 2"
    unfolding fmul_def by (rule fl_eval [where j = 49]) (simp_all add: rint_def)
  have s2: "fmul (25 / 2) (10 ^ 2) = 1250"
    unfolding fmul_def by (rule fl_eval [where j = 42]) (simp_all add: rint_def)
  have s3: "rint 1250 = 1250" by (simp add: rint_def)
  have s4: "fdiv 1250 (10 ^ 2) = 25 / 2"
    unfolding fdiv_def by (rule fl_eval [where j = 49]) (simp_all add: rint_def)
  show ?thesis
    unfolding np_round_def s1 s2 s3
    by (simp only: of_int_numeral of_int_0 s4)
qed

lemma percent_three_quarters: "np_round (fmul (3 / 4) 100) 2 = 75"
proof -
  have s1: "fmul (3 / 4) 100 = 75"
    unfolding fmul_def by (rule fl_eval [where j = 46]) (simp_all add: rint_def)
  have s2: "fmul 75 (10 ^ 2) = 7500"
    unfolding fmul_def by (rule fl_eval [where j = 40]) (simp_all add: rint_def)
  have s3: "rint 7500 = 7500" by (simp add: rint_def)
  have s4: "fdiv 7500 (10 ^ 2) = 75"
    unfolding fdiv_def by (rule fl_eval [where j = 46]) (simp_all add: rint_def)
  show ?thesis
    unfolding np_round_def s1 s2 s3
    by (simp only: of_int_numeral of_int_0 s4)
qed

lemma round_reweighted: "np_round (45 / 8) 2 = fl (562 / 100)"
proof -
  have s1: "fmul (45 / 8) (10 ^ 2) = 1125 / 2"
    unfolding fmul_def by (rule fl_eval [where j = 43]) (simp_all add: rint_def)
  have s2: "rint (1125 / 2) = 562" by (simp add: rint_def)
  show ?thesis
    unfolding np_round_def s1 s2 fdiv_def
    by simp
qed

lemma reweighted_eighth:
  "fadd (fadd (fadd (fmul (fl 0.4) 0) (fmul (fl 0.4) 0))
     (fmul (fl 0.15) (25 / 2))) (fmul (fl 0.05) 75) = 45 / 8"
proof -
  have s1: "fmul (fl 0.4) 0 = 0" by (simp add: fmul_def weight_040 fl_0)
  have s2: "fmul (fl 0.15) (25 / 2) = 15 / 8"
    unfolding fmul_def weight_015 by (rule fl_eval [where j = 52]) (simp_all add: rint_def)
  have s3: "fmul (fl 0.05) 75 = 15 / 4"
    unfolding fmul_def weight_005 by (rule fl_eval [where j = 51]) (simp_all add: rint_def)
  have s4: "fadd 0 0 = 0" by (simp add: fadd_def fl_0)
  have s5: "fadd 0 (15 / 8) = 15 / 8"
    unfolding fadd_def by (rule fl_eval [where j = 52]) (simp_all add: rint_def)
  have s6: "fadd (15 / 8) (15 / 4) = 45 / 8"
    unfolding fadd_def by (rule fl_eval [where j = 50]) (simp_all add: rint_def)
  show ?thesis
    unfolding s1 s2 s3 s4 s5 s6 by (rule refl)
qed

subsection \<open>The compatibility score\<close>

text \<open>
  C1, as amended: for sub-scores in \<open>[0, 1]\<close> the compatibility score lies in
  \<open>[0, 100]\<close> and is the double nearest to \<open>n / 100\<close> for a whole number \<open>n\<close> of
  hundredths from 0 to 10000, and \<open>n / 100\<close> is within \<open>0.005 + 10 ^ - 10\<close> of
  \<open>100 * (0.4 similarity + 0.4 skill_coverage + 0.15 experience + 0.05 education)\<close>: the
  weighted percentage rounded to two decimals, except that within \<open>10 ^ - 10\<close> of a tie
  between two hundredths either of them can come out.
\<close>

theorem compatibility_score_nearest_hundredth:
  assumes "0 \<le> s" "s \<le> 1" "0 \<le> k" "k \<le> 1" "0 \<le> e" "e \<le> 1" "0 \<le> d" "d \<le> 1"
  shows "0 \<le> calculate_compatibility_score s k e d \<and>
         calculate_compatibility_score s k e d \<le> 100 \<and>
         (\<exists>n::int. 0 \<le> n \<and> n \<le> 10000 \<and>
            calculate_compatibility_score s k e d = fl (of_int n / 100) \<and>
            \<bar>of_int n / 100 - 100 * (0.4 * s + 0.4 * k + 0.15 * e + 0.05 * d)\<bar>
              \<le> 0.005 + 1 / 10000000000)"
  using assms by (rule compatibility_score_nearest)

theorem compatibility_score_nearest_hundredth_witness:
  "calculate_compatibility_score 1 1 1 1 = 100 \<and>
   0 \<le> calculate_compatibility_score 1 1 1 1 \<and>
   calculate_compatibility_score 1 1 1 1 \<le> 100 \<and>
   (\<exists>n::int. 0 \<le> n \<and> n \<le> 10000 \<and>
      calculate_compatibility_score 1 1 1 1 = fl (of_int n / 100) \<and>
      \<bar>real_of_int n / 100 - 100 * (0.4 * 1 + 0.4 * 1 + 0.15 * 1 + 0.05 * 1)\<bar>
        \<le> 0.005 + 1 / 10000000000)"
  using compatibility_score_nearest_hundredth [of 1 1 1 1] score_all_ones by simp

text \<open>
  C1 as stated, an equality with the rounded weighted percentage, fails at a tie. For
  the sub-scores 3/64, 0, 1/2 and 1 the weighted percentage is 14.375, which rounds to
  14.38 (to the even hundredth and also half up), and the code returns the double
  nearest to 14.37: the sum of the doubles \<open>0.4 * 0.046875\<close>, \<open>0.15 * 0.5\<close> and
  \<open>0.05 * 1\<close> is a double just below 0.14375. For 17/64, 0, 0 and 0 the weighted
  percentage is 10.625, which rounds to the even hundredth 10.62, and the code returns
  the double nearest to 10.63.
\<close>

theorem compatibility_score_tie_counterexample:
  "calculate_compatibility_score (3 / 64) 0 (1 / 2) 1 \<noteq>
     real_of_int (rint (100 * (100 * (0.4 * (3 / 64) + 0.4 * 0 + 0.15 * (1 / 2) + 0.05 * 1)))) / 100 \<and>
   calculate_compatibility_score (3 / 64) 0 (1 / 2) 1 \<noteq>
     real_of_int (round (100 * (100 * (0.4 * (3 / 64) + 0.4 * 0 + 0.15 * (1 / 2) + 0.05 * 1)) :: real)) / 100 \<and>
   100 * (0.4 * (3 / 64) + 0.4 * 0 + 0.15 * (1 / 2) + 0.05 * 1) = (14375 / 1000 :: real) \<and>
   real_of_int (rint (100 * (14375 / 1000))) / 100 = 1438 / 100 \<and>
   real_of_int (round (100 * (14375 / 1000) :: real)) / 100 = 1438 / 100 \<and>
   calculate_compatibility_score (3 / 64) 0 (1 / 2) 1 = fl (1437 / 100) \<and>
   fl (1437 / 100) < 14371 / 1000 \<and>
   calculate_compatibility_score (17 / 64) 0 0 0 \<noteq>
     real_of_int (rint (100 * (100 * (0.4 * (17 / 64) + 0.4 * 0 + 0.15 * 0 + 0.05 * 0)))) / 100 \<and>
   100 * (0.4 * (17 / 64) + 0.4 * 0 + 0.15 * 0 + 0.05 * 0) = (10625 / 1000 :: real) \<and>
   real_of_int (rint (100 * (10625 / 1000))) / 100 = 1062 / 100 \<and>
   calculate_compatibility_score (17 / 64) 0 0 0 = fl (1063 / 100) \<and>
   10629 / 1000 < fl (1063 / 100)"
proof -
  have a: "fl (1437 / 100) < 14371 / 1000" using fl_near [of "1437 / 100"] by simp
  have b: "10629 / 1000 < fl (1063 / 100)" using fl_near [of "1063 / 100"] by simp
  have w: "100 * (100 * (0.4 * (3 / 64) + 0.4 * 0 + 0.15 * (1 / 2) + 0.05 * 1)) = (2875 / 2 :: real)"
    "100 * (100 * (0.4 * (17 / 64) + 0.4 * 0 + 0.15 * 0 + 0.05 * 0)) = (2125 / 2 :: real)"
    "100 * (14375 / 1000) = (2875 / 2 :: real)" "100 * (10625 / 1000) = (2125 / 2 :: real)"
    "100 * (0.4 * (3 / 64) + 0.4 * 0 + 0.15 * (1 / 2) + 0.05 * 1) = (14375 / 1000 :: real)"
    "100 * (0.4 * (17 / 64) + 0.4 * 0 + 0.15 * 0 + 0.05 * 0) = (10625 / 1000 :: real)"
    by simp_all
  have c: "rint (2875 / 2) = 1438" "rint (2125 / 2) = 1062" by (simp_all add: rint_def)
  have r: "round (2875 / 2 :: real) = 1438" by (simp add: round_def)
  show ?thesis
    unfolding w c r score_at_tie score_at_tie_2 using a b by simp
qed

subsection \<open>The breakdown and the compatibility score\<close>

text \<open>\<open>breakdown[key]\<close> for the dict of the breakdown.\<close>

definition item :: "(string \<times> real) list \<Rightarrow> string \<Rightarrow> real" where
  "item b key = (case map_of b key of None \<Rightarrow> 0 | Some v \<Rightarrow> v)"

lemma item_breakdown:
  "item (format_score_breakdown s k e d) ''semantic_similarity'' = np_round (fmul s 100) 2"
  "item (format_score_breakdown s k e d) ''skill_coverage'' = np_round (fmul k 100) 2"
  "item (format_score_breakdown s k e d) ''experience_match'' = np_round (fmul e 100) 2"
  "item (format_score_breakdown s k e d) ''education_match'' = np_round (fmul d 100) 2"
  by (simp_all add: item_def format_score_breakdown_def)

text \<open>
  The values the breakdown reports are percentages rounded to two decimals. Weighting
  them and multiplying by 100 again does not give the compatibility score (sub-scores all
  1: 10000 against 100). Without the second scaling the weighted value can still round
  differently: for the sub-scores 0, 0, 1/8 and 3/4 the reported percentages are 0, 0,
  12.5 and 75, their weighted sum in doubles is 5.625, which \<open>np.round\<close> takes to 5.62,
  and the compatibility score is 5.63.
\<close>

theorem breakdown_roundtrip_counterexample:
  "calculate_compatibility_score
     (item (format_score_breakdown 1 1 1 1) ''semantic_similarity'')
     (item (format_score_breakdown 1 1 1 1) ''skill_coverage'')
     (item (format_score_breakdown 1 1 1 1) ''experience_match'')
     (item (format_score_breakdown 1 1 1 1) ''education_match'') \<noteq>
     calculate_compatibility_score 1 1 1 1 \<and>
   calculate_compatibility_score
     (item (format_score_breakdown 1 1 1 1) ''semantic_similarity'')
     (item (format_score_breakdown 1 1 1 1) ''skill_coverage'')
     (item (format_score_breakdown 1 1 1 1) ''experience_match'')
     (item (format_score_breakdown 1 1 1 1) ''education_match'') = 10000 \<and>
   calculate_compatibility_score 1 1 1 1 = 100 \<and>
   np_round
     (fadd (fadd (fadd
        (fmul (fl 0.4) (item (format_score_breakdown 0 0 (1 / 8) (3 / 4)) ''semantic_similarity''))
        (fmul (fl 0.4) (item (format_score_breakdown 0 0 (1 / 8) (3 / 4)) ''skill_coverage'')))
        (fmul (fl 0.15) (item (format_score_breakdown 0 0 (1 / 8) (3 / 4)) ''experience_match'')))
        (fmul (fl 0.05) (item (format_score_breakdown 0 0 (1 / 8) (3 / 4)) ''education_match''))) 2 =
     fl (562 / 100) \<and>
   calculate_compatibility_score 0 0 (1 / 8) (3 / 4) = fl (563 / 100) \<and>
   fl (562 / 100) < fl (563 / 100)"
proof -
  have o: "fl (562 / 100) < fl (563 / 100)"
    using fl_near [of "562 / 100"] fl_near [of "563 / 100"] by simp
  show ?thesis
    unfolding item_breakdown percent_one percent_zero percent_eighth percent_three_quarters
      score_all_hundreds score_all_ones reweighted_eighth round_reweighted score_eighth
    using o by simp
qed

text \<open>
  C5, as amended: for sub-scores in \<open>[0, 1]\<close> the weights 0.4, 0.4, 0.15 and 0.05
  applied to the four percentages of the breakdown (without another factor of 100) give
  a value within \<open>0.01 + 10 ^ - 9\<close> of the compatibility score.
\<close>

theorem breakdown_reweighted:
  assumes "0 \<le> s" "s \<le> 1" "0 \<le> k" "k \<le> 1" "0 \<le> e" "e \<le> 1" "0 \<le> d" "d \<le> 1"
  shows "\<bar>0.4 * item (format_score_breakdown s k e d) ''semantic_similarity'' +
          0.4 * item (format_score_breakdown s k e d) ''skill_coverage'' +
          0.15 * item (format_score_breakdown s k e d) ''experience_match'' +
          0.05 * item (format_score_breakdown s k e d) ''education_match'' -
          calculate_compatibility_score s k e d\<bar> \<le> 0.01 + 1 / 1000000000"
proof -
  define W where "W = 4 / 10 * s + 4 / 10 * k + 15 / 100 * e + 5 / 100 * d"
  define A where "A = np_round (fmul s 100) 2"
  define B where "B = np_round (fmul k 100) 2"
  define C where "C = np_round (fmul e 100) 2"
  define D where "D = np_round (fmul d 100) 2"
  define X where "X = calculate_compatibility_score s k e d"
  have p: "100 * t - 5 / 1000 - 1 / 100000000000 \<le> np_round (fmul t 100) 2"
           "np_round (fmul t 100) 2 \<le> 100 * t + 5 / 1000 + 1 / 100000000000"
    if "0 \<le> t" "t \<le> 1" for t
  proof -
    note q = percent_err [OF that]
    from np_round_err [OF q(1,2)] have "\<bar>np_round (fmul t 100) 2 - fmul t 100\<bar>
        \<le> 5 / 1000 + 1 / 1000000000000" by blast
    with q(3) show "100 * t - 5 / 1000 - 1 / 100000000000 \<le> np_round (fmul t 100) 2"
      "np_round (fmul t 100) 2 \<le> 100 * t + 5 / 1000 + 1 / 100000000000" by linarith+
  qed
  note a = p [OF assms(1,2), folded A_def]
  note b = p [OF assms(3,4), folded B_def]
  note c = p [OF assms(5,6), folded C_def]
  note d = p [OF assms(7,8), folded D_def]
  from compatibility_score_nearest [OF assms] obtain n :: int where
    n: "0 \<le> n" "n \<le> 10000" "X = fl (of_int n / 100)"
      "\<bar>of_int n / 100 - 100 * (0.4 * s + 0.4 * k + 0.15 * e + 0.05 * d)\<bar>
         \<le> 0.005 + 1 / 10000000000"
    unfolding X_def by blast
  have "100 * (0.4 * s + 0.4 * k + 0.15 * e + 0.05 * d) = 100 * W" unfolding W_def by simp
  with n(4) have "\<bar>of_int n / 100 - 100 * W\<bar> \<le> 5 / 1000 + 1 / 10000000000" by simp
  moreover have "100 * W = 40 * s + 40 * k + 15 * e + 5 * d" unfolding W_def by simp
  ultimately have m:
    "real_of_int n / 100 \<le> 40 * s + 40 * k + 15 * e + 5 * d + 5 / 1000 + 1 / 10000000000"
    "40 * s + 40 * k + 15 * e + 5 * d - 5 / 1000 - 1 / 10000000000 \<le> real_of_int n / 100"
    by linarith+
  have nb: "0 \<le> real_of_int n / 100" "real_of_int n / 100 \<le> 128" using n(1,2) by simp_all
  note f = fl_near [OF nb, folded n(3)]
  have u: "2 / 5 * A + 2 / 5 * B + 3 / 20 * C + 1 / 20 * D - X \<le> 1 / 100 + 1 / 1000000000"
    using a b c d f m by linarith
  have l: "X - (2 / 5 * A + 2 / 5 * B + 3 / 20 * C + 1 / 20 * D) \<le> 1 / 100 + 1 / 1000000000"
    using a b c d f m by linarith
  from u l have "\<bar>2 / 5 * A + 2 / 5 * B + 3 / 20 * C + 1 / 20 * D - X\<bar>
      \<le> 1 / 100 + 1 / 1000000000" by linarith
  then show ?thesis
    unfolding item_breakdown A_def B_def C_def D_def X_def by simp
qed

theorem breakdown_reweighted_witness:
  "item (format_score_breakdown 1 1 1 1) ''semantic_similarity'' = 100 \<and>
   calculate_compatibility_score 1 1 1 1 = 100 \<and>
   \<bar>0.4 * item (format_score_breakdown 1 1 1 1) ''semantic_similarity'' +
     0.4 * item (format_score_breakdown 1 1 1 1) ''skill_coverage'' +
     0.15 * item (format_score_breakdown 1 1 1 1) ''experience_match'' +
     0.05 * item (format_score_breakdown 1 1 1 1) ''education_match'' -
     calculate_compatibility_score 1 1 1 1\<bar> \<le> 0.01 + 1 / 1000000000"
  using breakdown_reweighted [of 1 1 1 1] score_all_ones
  by (simp add: item_breakdown percent_one)

subsection \<open>Skill coverage\<close>

text \<open>
  C4: with no required skill the skill score is 1 and there is no missing skill, for
  every candidate skill list; with a non-empty list of required skills the score is the
  number of required skills (counted by position) whose lower-cased form is among the
  candidate skills, divided by the number of required skills.
\<close>

theorem skill_score_coverage:
  "(required_skills = [] \<longrightarrow>
      calculate_skill_score U cv_skills required_skills = 1 \<and>
      find_missing_skills U cv_skills required_skills = []) \<and>
   (required_skills \<noteq> [] \<longrightarrow>
      calculate_skill_score U cv_skills required_skills =
        real (card {i. i < length required_skills \<and> lower U (required_skills ! i) \<in> set cv_skills}) /
        real (length required_skills))"
  by (simp add: calculate_skill_score_def find_missing_skills_def unique_def
      length_filter_conv_card)

theorem skill_score_coverage_witness:
  "calculate_skill_score ascii_db [ustr ''python''] [] = 1 \<and>
   find_missing_skills ascii_db [ustr ''python''] [] = [] \<and>
   [ustr ''Python'', ustr ''sql''] \<noteq> [] \<and>
   calculate_skill_score ascii_db [ustr ''python''] [ustr ''Python'', ustr ''sql''] = 1 / 2 \<and>
   real (card {i. i < length [ustr ''Python'', ustr ''sql''] \<and>
       lower ascii_db ([ustr ''Python'', ustr ''sql''] ! i) \<in> set [ustr ''python'']}) /
     real (length [ustr ''Python'', ustr ''sql'']) = 1 / 2"
proof -
  have v: "calculate_skill_score ascii_db [ustr ''python''] [ustr ''Python'', ustr ''sql''] = 1 / 2"
    by (simp add: calculate_skill_score_def lower_def ustr_def is_ascii_def ascii_upper_def)
  show ?thesis
    using v skill_score_coverage [of "[]" ascii_db "[ustr ''python'']"]
      skill_score_coverage [of "[ustr ''Python'', ustr ''sql'']" ascii_db "[ustr ''python'']"]
    by simp
qed

lemma find_missing_example:
  "find_missing_skills ascii_db [ustr ''python''] [ustr ''Python'', ustr ''Docker'', ustr ''SQL'', ustr ''AWS '', ustr ''docker'']
     = [ustr ''aws '', ustr ''docker'']"
  by (simp add: find_missing_skills_def unique_def lower_def ustr_def is_ascii_def ascii_upper_def
      list_less_def list_le_def)

subsection \<open>Education score\<close>

lemma education_score_count:
  "calculate_education_score U resume_text job_desc =
     (of_bool (has_bachelor U resume_text) + of_bool (has_master U resume_text) +
      of_bool (has_phd U resume_text)) / 3"
  by (cases "has_bachelor U resume_text"; cases "has_master U resume_text";
      cases "has_phd U resume_text")
    (simp_all add: calculate_education_score_def)

lemma education_threshold:
  "(0.8 \<le> calculate_education_score U resume_text job_desc) \<longleftrightarrow>
     has_bachelor U resume_text \<and> has_master U resume_text \<and> has_phd U resume_text"
  unfolding education_score_count
  by (cases "has_bachelor U resume_text"; cases "has_master U resume_text";
      cases "has_phd U resume_text") simp_all

text \<open>
  C6: the education score is the number of the three degree checks (bachelor, master,
  phd) that find a match in the resume text, divided by 3, for every resume text and job
  description; so it is one of 0, 1/3, 2/3 and 1.
\<close>

theorem education_score_thirds:
  "calculate_education_score U resume_text job_desc =
     (of_bool (has_bachelor U resume_text) + of_bool (has_master U resume_text) +
      of_bool (has_phd U resume_text)) / 3 \<and>
   calculate_education_score U resume_text job_desc \<in> {0, 1 / 3, 2 / 3, 1}"
  by (cases "has_bachelor U resume_text"; cases "has_master U resume_text";
      cases "has_phd U resume_text")
    (simp_all add: calculate_education_score_def)

lemma education_example:
  "calculate_education_score ascii_db (ustr ''BS in physics, M.S. in CS, no doctorates'') [] = 2 / 3"
  by (simp add: calculate_education_score_def has_bachelor_def has_master_def has_phd_def
      search_word_def boundary_def is_word_def ustr_def is_ascii_def ascii_upper_def
      ascii_lower_def ascii_digit_def ci_eq_def ascii_db_def)

section \<open>Evaluating the model\<close>

text \<open>
  A library that finds nothing and an analyzer whose language model sees nothing, for
  evaluating the model on concrete texts.
\<close>

definition no_library :: library where
  "no_library = \<lparr>known_best = (\<lambda>skill choices. None), cosine = (\<lambda>a b. 0),
     re_search = (\<lambda>p t. None), re_findall = (\<lambda>p t. [])\<rparr>"

definition bare_analyzer :: analyzer where
  "bare_analyzer = \<lparr>nlp = (\<lambda>t. \<lparr>ents = [], noun_chunks = [], vector = [], vector_norm = 0\<rparr>),
     known_skills = [], current_year = 2026, skill_blacklist = []\<rparr>"

lemmas class_defs = is_ascii_def ascii_digit_def ascii_upper_def ascii_lower_def is_decimal_def
  digit_value_def is_word_def is_space_def ci_eq_def

lemmas experience_defs = extract_experience_def duration_mention_def range_mention_def
  four_digits_def range_years_def py_int_def opt_ci_def lower_def calculate_experience_score_def
  required_years_def starts_def py_truediv_def float_limit_def

section \<open>Properties of the experience score\<close>

text \<open>
  When the mentions are extracted and the quotient is below the float range, the score is
  \<open>min(total / required, 1)\<close>.
\<close>

lemma required_years_cases:
  "required_years U position = 5 \<or> required_years U position = 2 \<or> required_years U position = 3"
  by (simp add: required_years_def)

lemma experience_score_formula:
  assumes "extract_experience U self t = Inr experiences"
    and "\<bar>real_of_int (sum_list (map years experiences)) / real_of_int (required_years U position)\<bar>
           < float_limit"
  shows "calculate_experience_score U self t position =
           Inr (min (real_of_int (sum_list (map years experiences)) /
                     real_of_int (required_years U position)) 1)"
  using assms required_years_cases [of U position]
  by (auto simp: calculate_experience_score_def py_truediv_def Let_def)

text \<open>
  The resume text 2018-2022 against a Senior position, and the scenario of the
  specification: total 4, required 5, score 0.8.
\<close>

lemma experience_score_example:
  "calculate_experience_score U self (ustr ''2018-2022'') (ustr ''Senior'') = Inr (4 / 5)"
  by (simp add: ustr_def class_defs experience_defs)

lemma scenario_score:
  "calculate_experience_score U self
     (ustr ''John Doe john@example.com 2018-2022 Python Django'') (ustr ''Senior Engineer'') =
   Inr (4 / 5)"
  by (simp add: ustr_def class_defs experience_defs)

text \<open>Two mentions add up; "present" is the current year.\<close>

lemma additive_example:
  "extract_experience U (self\<lparr>current_year := 2026\<rparr>) (ustr ''5+ years, 2015-present'') =
     Inr [Duration 5, Range 11]"
  by (simp add: ustr_def class_defs experience_defs)

text \<open>
  With \<open>re.I\<close> the pattern accepts U+017F for the s of "present"; \<open>str.lower\<close>
  leaves that code point as it is, the comparison with "present" fails and \<open>int\<close>
  raises.
\<close>

lemma long_s_present:
  assumes "uni_lower U [112, 114, 101, 383, 101, 110, 116] = [112, 114, 101, 383, 101, 110, 116]"
  shows "extract_experience U self (ustr ''2018-'' @ [112, 114, 101, 383, 101, 110, 116]) =
           Inl ValueError"
  using assms by (simp add: ustr_def class_defs experience_defs)

subsection \<open>A total beyond the float range\<close>

lemma finditer_none: "(\<And>s. set s \<subseteq> set t \<Longrightarrow> m s = None) \<Longrightarrow> re_finditer m t = []"
proof (induction t)
  case Nil
  show ?case by simp
next
  case (Cons c cs)
  have "m (c # cs) = None" by (rule Cons.prems) simp
  moreover have "re_finditer m cs = []"
    by (rule Cons.IH) (rule Cons.prems, auto)
  ultimately show ?case by simp
qed

lemma range_mention_needs_dash:
  assumes "45 \<notin> set t" "8212 \<notin> set t"
  shows "range_mention U t = None"
proof (cases "dropWhile is_space (drop 4 t)")
  case Nil
  show ?thesis unfolding range_mention_def Nil by simp
next
  case (Cons c r)
  then have "c \<in> set (dropWhile is_space (drop 4 t))" by simp
  then have "c \<in> set t" by (meson in_set_dropD set_dropWhileD)
  with assms have "c \<noteq> 45 \<and> c \<noteq> 8212" by auto
  with Cons show ?thesis by (simp add: range_mention_def)
qed

lemma no_ranges_without_dash:
  assumes "45 \<notin> set t" "8212 \<notin> set t"
  shows "re_finditer (range_mention U) t = []"
proof (rule finditer_none)
  fix s assume "set s \<subseteq> set t"
  with assms have "45 \<notin> set s" "8212 \<notin> set s" by auto
  then show "range_mention U s = None" by (rule range_mention_needs_dash)
qed

lemma foldl_zeros:
  "foldl (\<lambda>a c. 10 * a + digit_value U c) a (replicate n 48) = a * 10 ^ n"
  by (induction n arbitrary: a) (simp_all add: digit_value_def is_ascii_def)

lemma tidy_no_space: "\<forall>c\<in>set xs. \<not> is_space c \<Longrightarrow> tidy ys \<Longrightarrow> tidy (xs @ ys)"
  by (induction xs) (simp_all add: tidy_Cons)

text \<open>A resume text: 1 followed by 400 zeros and " years".\<close>

definition huge_years :: str where
  "huge_years = (49 # replicate 400 48) @ ustr '' years''"

lemma huge_years_clean: "clean_text huge_years = huge_years"
proof -
  have "tidy (ustr '' years'')" by (simp add: ustr_def is_space_def)
  moreover have "\<forall>c\<in>set (49 # replicate 400 48). \<not> is_space c" by (simp add: is_space_def)
  ultimately have "tidy huge_years" unfolding huge_years_def by (intro tidy_no_space)
  then have a: "sub_ws huge_years = huge_years" by (rule sub_ws_tidy)
  have "\<forall>c\<in>set huge_years. \<not> is_bullet c"
    by (auto simp: huge_years_def ustr_def is_bullet_def)
  then have b: "sub_bullets huge_years = huge_years" by (rule sub_bullets_id)
  have c: "strip huge_years = huge_years"
    by (simp add: strip_def huge_years_def ustr_def is_space_def)
  show ?thesis unfolding clean_text_def by (simp only: a b c)
qed

lemma takeWhile_run:
  "\<forall>c\<in>set xs. P c \<Longrightarrow> \<not> P y \<Longrightarrow> takeWhile P (xs @ y # ys) = xs"
  by (induction xs) simp_all

lemma dropWhile_run:
  "\<forall>c\<in>set xs. P c \<Longrightarrow> \<not> P y \<Longrightarrow> dropWhile P (xs @ y # ys) = y # ys"
  by (induction xs) simp_all

lemma finditer_whole: "m t = Some (g, []) \<Longrightarrow> t \<noteq> [] \<Longrightarrow> re_finditer m t = [g]"
  by (cases t) simp_all

lemma huge_years_durations:
  "re_finditer (duration_mention U) huge_years = [49 # replicate 400 48]"
proof -
  have d: "\<forall>c\<in>set (49 # replicate 400 48). is_decimal U c" by (simp add: class_defs)
  have n: "\<not> is_decimal U 32" by (simp add: class_defs)
  have l: "huge_years = (49 # replicate 400 48) @ 32 # ustr ''years''"
    by (simp add: huge_years_def ustr_def)
  have "takeWhile (is_decimal U) huge_years = 49 # replicate 400 48"
    unfolding l using d n by (rule takeWhile_run)
  moreover have "dropWhile (is_decimal U) huge_years = 32 # ustr ''years''"
    unfolding l using d n by (rule dropWhile_run)
  ultimately have "duration_mention U huge_years = Some (49 # replicate 400 48, [])"
    unfolding duration_mention_def
    by (simp add: ustr_def opt_ci_def ci_eq_def is_space_def ascii_lower_def)
  moreover have "huge_years \<noteq> []" by (simp add: huge_years_def)
  ultimately show ?thesis by (rule finditer_whole)
qed

lemma huge_years_experience:
  "extract_experience U self huge_years = Inr [Duration (10 ^ 400)]"
proof -
  have "45 \<notin> set huge_years" "8212 \<notin> set huge_years"
    by (auto simp: huge_years_def ustr_def)
  then have r: "re_finditer (range_mention U) huge_years = []" by (rule no_ranges_without_dash)
  have "foldl (\<lambda>a c. 10 * a + digit_value U c) 0 (49 # replicate 400 48) = 1 * 10 ^ 400"
    by (simp only: foldl_Cons foldl_zeros) (simp add: digit_value_def is_ascii_def)
  moreover have "list_all (is_decimal U) (49 # replicate 400 48)"
    by (simp add: list_all_iff class_defs)
  ultimately have "py_int U (49 # replicate 400 48) = Inr (10 ^ 400)"
    unfolding py_int_def by simp
  with r show ?thesis
    unfolding extract_experience_def by (simp add: huge_years_durations)
qed

lemma overflow: "r = 5 \<or> r = 2 \<or> r = 3 \<Longrightarrow> py_truediv (10 ^ 400) r = Inl OverflowError"
  by (auto simp: py_truediv_def float_limit_def)

lemma huge_years_score:
  "calculate_experience_score U self huge_years position = Inl OverflowError"
  using overflow [OF required_years_cases [of U position]] required_years_cases [of U position]
  by (auto simp: calculate_experience_score_def huge_years_experience Let_def)

text \<open>
  C2: the experience score is to be \<open>min(total / required, 1)\<close> for every resume
  text and position title. For the resume text \<open>huge_years\<close>, one duration mention of
  \<open>10^400\<close> years, that would be 1; the code divides the two integers, Python raises
  \<open>OverflowError\<close>, and there is no score, whatever the position title.
\<close>

theorem experience_score_overflow:
  "extract_experience U self huge_years = Inr [Duration (10 ^ 400)] \<and>
   calculate_experience_score U self huge_years position = Inl OverflowError"
  by (simp only: huge_years_experience huge_years_score simp_thms)

section \<open>Properties of the analysis\<close>

lemma analyze_returns:
  "calculate_experience_score U self (clean_text t) (get job_data ''position'') = Inr x \<Longrightarrow>
   \<exists>r. analyze U L self t job_data = Inr r"
  unfolding analyze_def Let_def
  by (auto simp: calculate_experience_score_def Let_def split: sum.splits if_splits)

lemma analyze_raises:
  "calculate_experience_score U self (clean_text t) (get job_data ''position'') = Inl e \<Longrightarrow>
   analyze U L self t job_data = Inl e"
  unfolding analyze_def Let_def
  by (auto simp: calculate_experience_score_def Let_def split: sum.splits if_splits)

lemma analyze_matches:
  "analyze U L self t job_data = Inr r \<Longrightarrow>
   \<exists>x. calculate_experience_score U self (clean_text t) (get job_data ''position'') = Inr x \<and>
     experience_match r = (0.8 \<le> x) \<and>
     education_match r = (0.8 \<le> calculate_education_score U (clean_text t)
        (clean_text (get job_data ''description'' @ [32] @ get job_data ''requirements'')))"
  unfolding analyze_def Let_def
  by (auto split: sum.splits)

text \<open>The resume text 2018-2022 against a Senior position: the analysis reports a match.\<close>

lemma experience_match_example:
  "\<exists>r. analyze ascii_db no_library bare_analyzer (ustr ''2018-2022'')
         [''position'' \<mapsto> ustr ''Senior''] = Inr r \<and> experience_match r"
proof -
  have c: "clean_text (ustr ''2018-2022'') = ustr ''2018-2022''"
    by (simp add: ustr_def clean_text_def strip_def sub_bullets_def is_bullet_def is_space_def)
  have g: "get [''position'' \<mapsto> ustr ''Senior''] ''position'' = ustr ''Senior''"
    by (simp add: get_def)
  have s: "calculate_experience_score ascii_db bare_analyzer (clean_text (ustr ''2018-2022''))
             (get [''position'' \<mapsto> ustr ''Senior''] ''position'') = Inr (4 / 5)"
    unfolding c g by (rule experience_score_example)
  from analyze_returns [OF s] obtain r where
    r: "analyze ascii_db no_library bare_analyzer (ustr ''2018-2022'')
          [''position'' \<mapsto> ustr ''Senior''] = Inr r"
    by blast
  from analyze_matches [OF r] s have "experience_match r = (0.8 \<le> (4 / 5 :: real))" by auto
  then have "experience_match r" by simp
  with r show ?thesis by blast
qed

text \<open>
  C7: \<open>analyze\<close> is to return a result for every resume text and every job data. For
  the resume text \<open>huge_years\<close> it raises \<open>OverflowError\<close>, whatever the job data,
  the libraries and the analyzer: the division of \<open>_calculate_experience_score\<close> is not
  guarded against a total beyond the float range.
\<close>

theorem analyze_overflow:
  "analyze U L self huge_years job_data = Inl OverflowError"
  by (rule analyze_raises) (simp only: huge_years_clean huge_years_score)

text \<open>
  C10: in a result of \<open>analyze\<close>, \<open>education_match\<close> is true if and only if all
  three degree checks (bachelor, master, phd) match the resume text as \<open>analyze\<close>
  cleans it: the score is a multiple of 1/3, and only 3/3 reaches 0.8.
\<close>

theorem education_match_all_three:
  "analyze U L self resume_text job_data = Inr r \<Longrightarrow>
   education_match r \<longleftrightarrow>
     has_bachelor U (clean_text resume_text) \<and> has_master U (clean_text resume_text) \<and>
     has_phd U (clean_text resume_text)"
  using analyze_matches [of U L self resume_text job_data r] education_threshold by blast

theorem education_match_all_three_witness:
  "\<exists>r. analyze ascii_db no_library bare_analyzer (ustr ''BS, MS, PhD'') Map.empty = Inr r \<and>
       education_match r \<and>
       has_bachelor ascii_db (clean_text (ustr ''BS, MS, PhD'')) \<and>
       has_master ascii_db (clean_text (ustr ''BS, MS, PhD'')) \<and>
       has_phd ascii_db (clean_text (ustr ''BS, MS, PhD''))"
proof -
  have c: "clean_text (ustr ''BS, MS, PhD'') = ustr ''BS, MS, PhD''"
    by (simp add: ustr_def clean_text_def strip_def sub_bullets_def is_bullet_def is_space_def)
  have "calculate_experience_score ascii_db bare_analyzer (ustr ''BS, MS, PhD'')
          (get Map.empty ''position'') = Inr 0"
    by (simp add: ustr_def class_defs experience_defs get_def)
  then obtain r where r: "analyze ascii_db no_library bare_analyzer (ustr ''BS, MS, PhD'') Map.empty = Inr r"
    using analyze_returns [of ascii_db bare_analyzer "ustr ''BS, MS, PhD''" Map.empty 0 no_library]
    unfolding c by blast
  have d: "has_bachelor ascii_db (ustr ''BS, MS, PhD'')" "has_master ascii_db (ustr ''BS, MS, PhD'')"
    "has_phd ascii_db (ustr ''BS, MS, PhD'')"
    by (simp_all add: has_bachelor_def has_master_def has_phd_def search_word_def boundary_def
        ustr_def class_defs ascii_db_def)
  from education_match_all_three [OF r] d have "education_match r" unfolding c by simp
  with r d show ?thesis unfolding c by blast
qed

section \<open>Properties of the vocabulary\<close>

lemma distinct_unique: "distinct (unique xs)"
  by (simp add: unique_def)

lemma set_unique: "set (unique xs) = set xs"
  by (simp add: unique_def)

lemma sorted_wrt_conj:
  "sorted_wrt P xs \<Longrightarrow> sorted_wrt Q xs \<Longrightarrow> sorted_wrt (\<lambda>a b. P a b \<and> Q a b) xs"
  by (induction xs) auto

lemma sorted_wrt_distinct: "distinct xs \<Longrightarrow> sorted_wrt (\<lambda>a b. a \<noteq> b) xs"
  by (induction xs) auto

lemma by_length_strict:
  "by_length a \<le> by_length b \<Longrightarrow> a \<noteq> b \<Longrightarrow>
   length b < length a \<or> (length a = length b \<and> a < b)"
  by (auto simp: by_length_def less_eq_prod_def)

text \<open>Longer first, and among texts of one length the smaller first.\<close>

definition vocabulary_order :: "str \<Rightarrow> str \<Rightarrow> bool" where
  "vocabulary_order a b \<longleftrightarrow> length b < length a \<or> (length a = length b \<and> a < b)"

lemma sort_by_length:
  assumes "distinct xs"
  shows "sorted_wrt vocabulary_order (sort_key by_length xs)"
proof -
  let ?ks = "sort_key by_length xs"
  have "sorted (map by_length ?ks)" by (rule sorted_sort_key)
  then have "sorted_wrt (\<lambda>a b. by_length a \<le> by_length b) ?ks" by (simp add: sorted_map)
  moreover have "sorted_wrt (\<lambda>a b. a \<noteq> b) ?ks"
    using assms by (intro sorted_wrt_distinct) simp
  ultimately have "sorted_wrt (\<lambda>a b. by_length a \<le> by_length b \<and> a \<noteq> b) ?ks"
    by (rule sorted_wrt_conj)
  then show ?thesis
    by (rule sorted_wrt_mono_rel [rotated]) (auto simp: vocabulary_order_def dest: by_length_strict)
qed

lemma load_skills_vocabulary:
  assumes "load_skills U sys csv_path = Inr skills"
    and idem: "\<forall>s. lower U (lower U s) = lower U s"
    and nonempty: "\<forall>s. s \<noteq> [] \<longrightarrow> lower U s \<noteq> []"
    and cells: "\<forall>p df. read_csv sys p = Inr df \<longrightarrow> Some [] \<notin> set (concat df)"
  shows "distinct skills \<and> (\<forall>s\<in>set skills. s \<noteq> [] \<and> lower U s = s) \<and>
         sorted_wrt vocabulary_order skills"
proof -
  from assms(1) obtain df where df: "read_csv sys csv_path = Inr df"
    and sk: "skills = sort_key by_length
               (unique (map (lower U) (List.map_filter (\<lambda>cell. cell) (concat df))))"
    by (auto simp: load_skills_def split: sum.splits)
  let ?cells = "List.map_filter (\<lambda>cell. cell) (concat df)"
  have c: "\<forall>s\<in>set ?cells. s \<noteq> []"
    using cells df by (auto simp: List.map_filter_def)
  have "set skills = lower U ` set ?cells" unfolding sk by (simp add: set_unique)
  with c idem nonempty have "\<forall>s\<in>set skills. s \<noteq> [] \<and> lower U s = s" by auto
  moreover have "distinct skills" unfolding sk by (simp add: distinct_unique)
  moreover have "sorted_wrt vocabulary_order skills"
    unfolding sk by (intro sort_by_length distinct_unique)
  ultimately show ?thesis by simp
qed

text \<open>
  C9: the vocabulary of an analyzer that \<open>__init__\<close> has built has no duplicates,
  its texts are non-empty and lower case (fixed by \<open>str.lower\<close>), it is sorted by
  descending length and then lexicographically, and \<open>analyze\<close> and
  \<open>extract_text\<close> leave it as it is. What is assumed of the libraries:
  \<open>str.lower\<close> is idempotent and keeps a text non-empty, and \<open>pd.read_csv\<close>
  reads an empty cell as NaN, never as the empty text.
\<close>

theorem known_skills_invariant:
  assumes "init U sys skills_csv_path = Inr self"
    and "\<forall>s. lower U (lower U s) = lower U s"
    and "\<forall>s. s \<noteq> [] \<longrightarrow> lower U s \<noteq> []"
    and "\<forall>p df. read_csv sys p = Inr df \<longrightarrow> Some [] \<notin> set (concat df)"
  shows "distinct (known_skills self) \<and>
         (\<forall>s\<in>set (known_skills self). s \<noteq> [] \<and> lower U s = s) \<and>
         sorted_wrt vocabulary_order (known_skills self) \<and>
         known_skills (snd (analyze_call U L self resume_text job_data)) = known_skills self \<and>
         known_skills (snd (extract_text_call sys self resume_path)) = known_skills self"
proof -
  from assms(1) obtain model skills where
    s: "self = \<lparr>nlp = model, known_skills = skills, current_year = now_year sys,
          skill_blacklist = map ustr [''http'', ''github'', ''contribution'', ''january'',
            ''february'', ''company'', ''owner'']\<rparr>"
    and l: "skills = [] \<or> (\<exists>path. load_skills U sys path = Inr skills)"
    by (auto simp: init_def split: option.splits sum.splits if_splits)
  have "distinct skills \<and> (\<forall>s\<in>set skills. s \<noteq> [] \<and> lower U s = s) \<and>
        sorted_wrt vocabulary_order skills"
    using l load_skills_vocabulary [OF _ assms(2,3,4)] by auto
  then show ?thesis
    by (simp add: s analyze_call_def extract_text_call_def)
qed

lemma lower_ascii_db:
  "\<forall>s. lower ascii_db (lower ascii_db s) = lower ascii_db s"
  "\<forall>s. s \<noteq> [] \<longrightarrow> lower ascii_db s \<noteq> []"
  by (auto simp: lower_def ascii_db_def list_all_iff is_ascii_def ascii_upper_def)

text \<open>A system whose skills file has two rows of two cells.\<close>

definition two_by_two :: system where
  "two_by_two = \<lparr>spacy_load = Some (\<lambda>t. \<lparr>ents = [], noun_chunks = [], vector = [], vector_norm = 0\<rparr>),
     read_csv = (\<lambda>p. Inr [[Some (ustr ''SQL''), None], [Some (ustr ''Python''), Some (ustr ''sql'')]]),
     pdf_pages = (\<lambda>p. Inr []), now_year = 2026\<rparr>"

theorem known_skills_invariant_witness:
  "\<exists>self. init ascii_db two_by_two (Some (ustr ''skills.csv'')) = Inr self \<and>
     known_skills self = [ustr ''python'', ustr ''sql''] \<and>
     distinct (known_skills self) \<and>
     sorted_wrt vocabulary_order (known_skills self)"
proof -
  have v: "load_skills ascii_db two_by_two (ustr ''skills.csv'') = Inr [ustr ''python'', ustr ''sql'']"
    by (simp add: load_skills_def two_by_two_def List.map_filter_def unique_def lower_def ustr_def
        is_ascii_def ascii_upper_def by_length_def less_eq_prod_def list_le_def list_less_def)
  then obtain self where i: "init ascii_db two_by_two (Some (ustr ''skills.csv'')) = Inr self"
    and k: "known_skills self = [ustr ''python'', ustr ''sql'']"
    by (simp add: init_def two_by_two_def ustr_def)
  have "\<forall>p df. read_csv two_by_two p = Inr df \<longrightarrow> Some [] \<notin> set (concat df)"
    by (auto simp: two_by_two_def ustr_def)
  from known_skills_invariant [OF i lower_ascii_db this] i k show ?thesis by blast
qed

end
